theory Spec2Isabelle
  imports Main "HOL-Library.AList"
begin

section \<open>Python values\<close>

text \<open>
  The handlers work on untyped dictionaries decoded from the document store. A value is
  one of the Python objects that occur in such a dictionary. A \<open>datetime\<close> is represented
  by its ISO-8601 text and an \<open>ObjectId\<close> by its hexadecimal text, so that \<open>isoformat()\<close>
  and \<open>str()\<close> only change the tag. A \<open>dict\<close> is an association list in insertion order.
\<close>

datatype pyval =
    PNone
  | PBool bool
  | PInt int
  | PStr string
  | PDatetime string
  | PObjectId string
  | PList "pyval list"
  | PDict "(string \<times> pyval) list"

type_synonym pydict = "(string \<times> pyval) list"

datatype exn =
    HTTPException nat string
  | NotFoundError string
  | ValidationError string
  | DatabaseError string
  | ConflictError string
  | APIError string
  | AttributeError string
  | TypeError string
  | NotImplementedError string

definition quote :: "string \<Rightarrow> string" where
  "quote s = CHR 0x27 # s @ [CHR 0x27]"

text \<open>\<open>str(e)\<close>: \<open>NotFoundError(resource)\<close> builds the message \<open>f"{resource} not found"\<close>,
  the other application errors carry their message unchanged (utils/errors.py).\<close>

fun str_exn :: "exn \<Rightarrow> string" where
  "str_exn (HTTPException c d) = d"
| "str_exn (NotFoundError resource) = resource @ '' not found''"
| "str_exn (ValidationError m) = m"
| "str_exn (DatabaseError m) = m"
| "str_exn (ConflictError m) = m"
| "str_exn (APIError m) = m"
| "str_exn (AttributeError m) = m"
| "str_exn (TypeError m) = m"
| "str_exn (NotImplementedError m) = m"

fun type_name :: "pyval \<Rightarrow> string" where
  "type_name PNone = ''NoneType''"
| "type_name (PBool b) = ''bool''"
| "type_name (PInt i) = ''int''"
| "type_name (PStr s) = ''str''"
| "type_name (PDatetime d) = ''datetime.datetime''"
| "type_name (PObjectId d) = ''ObjectId''"
| "type_name (PList xs) = ''list''"
| "type_name (PDict kvs) = ''dict''"

fun truthy :: "pyval \<Rightarrow> bool" where
  "truthy PNone = False"
| "truthy (PBool b) = b"
| "truthy (PInt i) = (i \<noteq> 0)"
| "truthy (PStr s) = (s \<noteq> [])"
| "truthy (PDatetime d) = True"
| "truthy (PObjectId d) = True"
| "truthy (PList xs) = (xs \<noteq> [])"
| "truthy (PDict kvs) = (kvs \<noteq> [])"

definition ebind :: "exn + 'a \<Rightarrow> ('a \<Rightarrow> exn + 'b) \<Rightarrow> exn + 'b" where
  "ebind m f = (case m of Inl e \<Rightarrow> Inl e | Inr x \<Rightarrow> f x)"

text \<open>\<open>d.get(k, default)\<close> on a dictionary, and on any value: only a \<open>dict\<close> has \<open>get\<close>.\<close>

definition dict_get :: "pydict \<Rightarrow> string \<Rightarrow> pyval \<Rightarrow> pyval" where
  "dict_get d k dflt = (case map_of d k of Some v \<Rightarrow> v | None \<Rightarrow> dflt)"

definition no_attribute :: "pyval \<Rightarrow> string \<Rightarrow> exn" where
  "no_attribute v a =
     AttributeError (quote (type_name v) @ '' object has no attribute '' @ quote a)"

fun py_get :: "pyval \<Rightarrow> string \<Rightarrow> pyval \<Rightarrow> exn + pyval" where
  "py_get (PDict d) k dflt = Inr (dict_get d k dflt)"
| "py_get v k dflt = Inl (no_attribute v ''get'')"

fun py_len :: "pyval \<Rightarrow> exn + nat" where
  "py_len (PList xs) = Inr (length xs)"
| "py_len (PDict d) = Inr (length d)"
| "py_len (PStr s) = Inr (length s)"
| "py_len v = Inl (TypeError (''object of type '' @ quote (type_name v) @ '' has no len()''))"

text \<open>\<open>for x in v\<close>: a list yields its elements, a dict its keys, a string its characters.\<close>

fun py_iter :: "pyval \<Rightarrow> exn + pyval list" where
  "py_iter (PList xs) = Inr xs"
| "py_iter (PDict d) = Inr (map (\<lambda>kv. PStr (fst kv)) d)"
| "py_iter (PStr s) = Inr (map (\<lambda>c. PStr [c]) s)"
| "py_iter v = Inl (TypeError (quote (type_name v) @ '' object is not iterable''))"

text \<open>\<open>str(n)\<close> for the integers that appear in messages.\<close>

definition digit_char :: "nat \<Rightarrow> char" where
  "digit_char d = ''0123456789'' ! d"

function str_nat :: "nat \<Rightarrow> string" where
  "str_nat n = (if n < 10 then [digit_char n] else str_nat (n div 10) @ [digit_char (n mod 10)])"
  by pat_completeness auto
termination
  by (relation "measure (\<lambda>n. n)") auto

declare str_nat.simps [simp del]

definition str_int :: "int \<Rightarrow> string" where
  "str_int i = (if i < 0 then CHR ''-'' # str_nat (nat (- i)) else str_nat (nat i))"

section \<open>Response envelopes (utils/response.py)\<close>

definition success_response :: "pyval \<Rightarrow> string \<Rightarrow> pyval" where
  "success_response data message =
     PDict ([(''status'', PStr ''success'')]
            @ (if message \<noteq> [] then [(''message'', PStr message)] else [])
            @ (if data \<noteq> PNone then [(''data'', data)] else []))"

definition error_response :: "string \<Rightarrow> string list \<Rightarrow> int \<Rightarrow> pyval" where
  "error_response message errors status_code =
     PDict ([(''status'', PStr ''error''), (''message'', PStr message), (''code'', PInt status_code)]
            @ (if errors \<noteq> [] then [(''errors'', PList (map PStr errors))] else []))"

section \<open>Models (models/dictionary.py)\<close>

datatype TableType = FACT | DIMENSION | LOOKUP | STAGING | AGGREGATE | VIEW

fun TableType_value :: "TableType \<Rightarrow> string" where
  "TableType_value FACT = ''fact''"
| "TableType_value DIMENSION = ''dimension''"
| "TableType_value LOOKUP = ''lookup''"
| "TableType_value STAGING = ''staging''"
| "TableType_value AGGREGATE = ''aggregate''"
| "TableType_value VIEW = ''view''"

datatype ColumnKey = PRIMARY | FOREIGN | UNIQUE | INDEX | NONE

fun ColumnKey_value :: "ColumnKey \<Rightarrow> string" where
  "ColumnKey_value PRIMARY = ''PK''"
| "ColumnKey_value FOREIGN = ''FK''"
| "ColumnKey_value UNIQUE = ''UK''"
| "ColumnKey_value INDEX = ''IX''"
| "ColumnKey_value NONE = ''''"

record Column =
  c_name :: string
  c_data_type :: string
  c_key :: "ColumnKey option"
  c_nullable :: bool
  c_default_value :: "string option"
  c_description :: "string option"
  c_length :: "int option"
  c_precision :: "int option"
  c_scale :: "int option"
  c_is_unique :: bool
  c_is_indexed :: bool
  c_foreign_key_table :: "string option"
  c_foreign_key_column :: "string option"
  c_ui_order :: "int option"
  c_ui_hidden :: bool

text \<open>\<open>Column(name=..., data_type=...)\<close> with every other field at its declared default.\<close>

definition Column_init :: "string \<Rightarrow> string \<Rightarrow> Column" where
  "Column_init n t =
     \<lparr>c_name = n, c_data_type = t, c_key = Some NONE, c_nullable = True,
      c_default_value = None, c_description = None, c_length = None, c_precision = None,
      c_scale = None, c_is_unique = False, c_is_indexed = False,
      c_foreign_key_table = None, c_foreign_key_column = None, c_ui_order = None,
      c_ui_hidden = False\<rparr>"

definition isPK :: "Column \<Rightarrow> bool" where
  "isPK c = (c_key c = Some PRIMARY)"

definition isFK :: "Column \<Rightarrow> bool" where
  "isFK c = (c_key c = Some FOREIGN)"

record Table =
  t_name :: string
  t_schema_name :: string
  t_table_type :: TableType
  t_description :: "string option"
  t_columns :: "Column list"
  t_indexes :: "pyval list"
  t_constraints :: "pyval list"
  t_ui_color :: "string option"
  t_ui_icon :: "string option"
  t_ui_order :: "int option"

definition Table_init :: "string \<Rightarrow> Table" where
  "Table_init n =
     \<lparr>t_name = n, t_schema_name = ''public'', t_table_type = DIMENSION, t_description = None,
      t_columns = [], t_indexes = [], t_constraints = [], t_ui_color = None, t_ui_icon = None,
      t_ui_order = None\<rparr>"

record Schema =
  s_name :: string
  s_description :: "string option"
  s_tables :: "Table list"
  s_is_collapsed :: bool

definition Schema_init :: "string \<Rightarrow> Schema" where
  "Schema_init n = \<lparr>s_name = n, s_description = None, s_tables = [], s_is_collapsed = False\<rparr>"

datatype RelationshipType = ONE_TO_ONE | ONE_TO_MANY | MANY_TO_MANY

fun RelationshipType_value :: "RelationshipType \<Rightarrow> string" where
  "RelationshipType_value ONE_TO_ONE = ''1:1''"
| "RelationshipType_value ONE_TO_MANY = ''1:N''"
| "RelationshipType_value MANY_TO_MANY = ''N:N''"

record Relationship =
  r_id :: string
  r_name :: "string option"
  r_source_table :: string
  r_source_column :: string
  r_target_table :: string
  r_target_column :: string
  r_relationship_type :: RelationshipType
  r_on_delete :: string
  r_on_update :: string
  r_description :: "string option"

text \<open>\<open>Relationship(id=..., source_table=..., source_column=..., target_table=...,
  target_column=...)\<close> with every other field at its declared default.\<close>

definition Relationship_init ::
  "string \<Rightarrow> string \<Rightarrow> string \<Rightarrow> string \<Rightarrow> string \<Rightarrow> Relationship" where
  "Relationship_init i st sc tt tc =
     \<lparr>r_id = i, r_name = None, r_source_table = st, r_source_column = sc,
      r_target_table = tt, r_target_column = tc, r_relationship_type = ONE_TO_MANY,
      r_on_delete = ''NO ACTION'', r_on_update = ''NO ACTION'', r_description = None\<rparr>"

record TableRequest =
  tr_name :: string
  tr_schema_name :: string
  tr_table_type :: TableType
  tr_description :: "string option"
  tr_columns :: "Column list"

text \<open>\<open>model_dump(by_alias=True, exclude_none=True)\<close>: fields in declaration order under
  their serialization alias, a field holding \<open>None\<close> left out, computed fields last.\<close>

definition opt_field :: "string \<Rightarrow> pyval option \<Rightarrow> pydict" where
  "opt_field k v = (case v of None \<Rightarrow> [] | Some x \<Rightarrow> [(k, x)])"

definition Column_model_dump :: "Column \<Rightarrow> pydict" where
  "Column_model_dump c =
     [(''name'', PStr (c_name c)), (''type'', PStr (c_data_type c))]
       @ opt_field ''key'' (map_option (\<lambda>k. PStr (ColumnKey_value k)) (c_key c))
       @ [(''nullable'', PBool (c_nullable c))]
       @ opt_field ''default_value'' (map_option PStr (c_default_value c))
       @ opt_field ''description'' (map_option PStr (c_description c))
       @ opt_field ''length'' (map_option PInt (c_length c))
       @ opt_field ''precision'' (map_option PInt (c_precision c))
       @ opt_field ''scale'' (map_option PInt (c_scale c))
       @ [(''is_unique'', PBool (c_is_unique c)), (''is_indexed'', PBool (c_is_indexed c))]
       @ opt_field ''refTable'' (map_option PStr (c_foreign_key_table c))
       @ opt_field ''refColumn'' (map_option PStr (c_foreign_key_column c))
       @ opt_field ''ui_order'' (map_option PInt (c_ui_order c))
       @ [(''ui_hidden'', PBool (c_ui_hidden c)),
          (''isPK'', PBool (isPK c)), (''isFK'', PBool (isFK c))]"

definition Table_model_dump :: "Table \<Rightarrow> pydict" where
  "Table_model_dump t =
     [(''name'', PStr (t_name t)), (''schema_name'', PStr (t_schema_name t)),
      (''type'', PStr (TableType_value (t_table_type t)))]
       @ opt_field ''description'' (map_option PStr (t_description t))
       @ [(''columns'', PList (map PDict (map Column_model_dump (t_columns t)))),
          (''indexes'', PList (t_indexes t)), (''constraints'', PList (t_constraints t))]
       @ opt_field ''ui_color'' (map_option PStr (t_ui_color t))
       @ opt_field ''ui_icon'' (map_option PStr (t_ui_icon t))
       @ opt_field ''ui_order'' (map_option PInt (t_ui_order t))"

definition TableRequest_model_dump :: "TableRequest \<Rightarrow> pydict" where
  "TableRequest_model_dump t =
     [(''name'', PStr (tr_name t)), (''schema_name'', PStr (tr_schema_name t)),
      (''table_type'', PStr (TableType_value (tr_table_type t)))]
     @ opt_field ''description'' (map_option PStr (tr_description t))
     @ [(''columns'', PList (map PDict (map Column_model_dump (tr_columns t))))]"

definition Relationship_model_dump :: "Relationship \<Rightarrow> pydict" where
  "Relationship_model_dump r =
     [(''id'', PStr (r_id r))]
       @ opt_field ''name'' (map_option PStr (r_name r))
       @ [(''fromTable'', PStr (r_source_table r)), (''fromColumn'', PStr (r_source_column r)),
          (''toTable'', PStr (r_target_table r)), (''toColumn'', PStr (r_target_column r)),
          (''type'', PStr (RelationshipType_value (r_relationship_type r))),
          (''on_delete'', PStr (r_on_delete r)), (''on_update'', PStr (r_on_update r))]
       @ opt_field ''description'' (map_option PStr (r_description r))"

section \<open>The default schema (api/v1/versions.py)\<close>

definition sample_table :: Table where
  "sample_table =
     (Table_init ''sample_table'')
       \<lparr>t_schema_name := ''public'', t_table_type := DIMENSION,
        t_description := Some ''Sample table - you can modify or delete this'',
        t_columns :=
          [(Column_init ''id'' ''bigint'')
             \<lparr>c_key := Some PRIMARY, c_nullable := False, c_description := Some ''Primary key''\<rparr>,
           (Column_init ''name'' ''varchar'')
             \<lparr>c_length := Some 255, c_nullable := True, c_description := Some ''Name field''\<rparr>,
           (Column_init ''created_at'' ''timestamp'')
             \<lparr>c_nullable := False, c_default_value := Some ''CURRENT_TIMESTAMP'',
              c_description := Some ''Record creation timestamp''\<rparr>]\<rparr>"

definition create_initial_schema :: "Schema list" where
  "create_initial_schema =
     [(Schema_init ''public'')
        \<lparr>s_description := Some ''Default public schema'', s_tables := [sample_table]\<rparr>]"

section \<open>The two stores\<close>

text \<open>
  The relational version index holds the tables \<open>projects\<close> and \<open>dictionary_versions\<close>;
  the document store holds the collection \<open>dictionaries\<close>, keyed by \<open>_id\<close>. A request
  reads and writes both. Store calls are taken to succeed; what a request draws from its
  environment (the generated \<open>ObjectId\<close>, the \<open>uuid4\<close>, the successive readings of
  \<open>datetime.utcnow()\<close>) is passed in.
\<close>

record project_row =
  p_id :: string
  p_owner_id :: string
  p_name :: string
  p_description :: "string option"
  p_created_at :: string
  p_updated_at :: "string option"

record version_row =
  v_id :: string
  v_project_id :: string
  v_version :: int
  v_mongo_id :: string
  v_name :: string
  v_description :: "string option"
  v_is_latest :: bool
  v_metadata :: pyval
  v_created_at :: string

record state =
  projects :: "project_row list"
  dictionary_versions :: "version_row list"
  mongo_available :: bool
  dictionaries :: "(string \<times> pydict) list"

record env =
  env_object_id :: string
  env_uuid4 :: string
  env_utcnow :: "nat \<Rightarrow> string"

definition opt_str :: "string option \<Rightarrow> pyval" where
  "opt_str s = (case s of None \<Rightarrow> PNone | Some x \<Rightarrow> PStr x)"

definition version_row_dump :: "version_row \<Rightarrow> pyval" where
  "version_row_dump r =
     PDict [(''id'', PStr (v_id r)), (''project_id'', PStr (v_project_id r)),
            (''version'', PInt (v_version r)), (''mongo_id'', PStr (v_mongo_id r)),
            (''name'', PStr (v_name r)), (''description'', opt_str (v_description r)),
            (''is_latest'', PBool (v_is_latest r)), (''metadata'', v_metadata r),
            (''created_at'', PStr (v_created_at r))]"

text \<open>The relational client: \<open>.eq("project_id", p)\<close> selects the rows of a project;
  \<open>.single()\<close> returns the one selected row and fails unless exactly one row is selected.\<close>

definition project_versions :: "state \<Rightarrow> string \<Rightarrow> version_row list" where
  "project_versions st project_id =
     filter (\<lambda>r. v_project_id r = project_id) (dictionary_versions st)"

definition select_version :: "state \<Rightarrow> string \<Rightarrow> int \<Rightarrow> version_row list" where
  "select_version st project_id version =
     filter (\<lambda>r. v_project_id r = project_id \<and> v_version r = version) (dictionary_versions st)"

definition single :: "'a list \<Rightarrow> exn + 'a option" where
  "single rows =
     (case rows of
        [r] \<Rightarrow> Inr (Some r)
      | _ \<Rightarrow> Inl (APIError ''JSON object requested, multiple (or no) rows returned''))"

text \<open>The document store: \<open>find_one\<close> returns the stored fields behind their \<open>_id\<close>;
  \<open>update_one\<close> with \<open>$set\<close> assigns the given fields and reports whether the document
  changed; \<open>insert_one\<close> stores the document under the generated id.\<close>

definition find_one :: "state \<Rightarrow> string \<Rightarrow> pydict option" where
  "find_one st oid =
     map_option (\<lambda>d. (''_id'', PObjectId oid) # d) (map_of (dictionaries st) oid)"

definition insert_one :: "state \<Rightarrow> string \<Rightarrow> pydict \<Rightarrow> state" where
  "insert_one st oid doc = st\<lparr>dictionaries := dictionaries st @ [(oid, doc)]\<rparr>"

definition apply_set :: "pydict \<Rightarrow> pydict \<Rightarrow> pydict" where
  "apply_set sets doc = fold (\<lambda>kv d. AList.update (fst kv) (snd kv) d) sets doc"

definition update_one :: "state \<Rightarrow> string \<Rightarrow> pydict \<Rightarrow> nat \<times> state" where
  "update_one st oid sets =
     (case map_of (dictionaries st) oid of
        None \<Rightarrow> (0, st)
      | Some doc \<Rightarrow>
          (if apply_set sets doc = doc then (0, st)
           else (1, st\<lparr>dictionaries := AList.update oid (apply_set sets doc) (dictionaries st)\<rparr>)))"

definition delete_one :: "state \<Rightarrow> string \<Rightarrow> state" where
  "delete_one st oid = st\<lparr>dictionaries := AList.delete oid (dictionaries st)\<rparr>"

definition verify_project_access :: "state \<Rightarrow> string \<Rightarrow> string \<Rightarrow> bool" where
  "verify_project_access st project_id user_id =
     (length (filter (\<lambda>p. p_id p = project_id \<and> p_owner_id p = user_id) (projects st)) > 0)"

text \<open>Every endpoint ends in the same handlers: an \<open>HTTPException\<close> is raised again, any
  other exception becomes an error envelope with code 500. (The handler for
  \<open>PyMongoError\<close> of the writing endpoints is never entered, as store calls succeed.)\<close>

definition handle_exceptions :: "(exn + pyval) \<times> state \<Rightarrow> (exn + pyval) \<times> state" where
  "handle_exceptions r =
     (case fst r of
        Inr v \<Rightarrow> r
      | Inl (HTTPException c d) \<Rightarrow> r
      | Inl e \<Rightarrow> (Inr (error_response (str_exn e) [] 500), snd r))"

definition access_denied :: exn where
  "access_denied = HTTPException 403 ''Access denied to this project''"

definition mongo_unavailable :: exn where
  "mongo_unavailable = DatabaseError ''MongoDB connection not available''"

section \<open>Version management (api/v1/versions.py)\<close>

record CreateVersionRequest =
  cv_name :: string
  cv_description :: "string option"
  cv_base_version :: "int option"
  cv_schemas :: "Schema list"

record UpdateVersionRequest =
  uv_name :: "string option"
  uv_description :: "string option"
  uv_schemas :: "Schema list option"
  uv_relationships :: "Relationship list option"
  uv_erd :: "pydict option"
  uv_metadata :: "pydict option"

definition list_versions_try :: "state \<Rightarrow> string \<Rightarrow> string \<Rightarrow> (exn + pyval) \<times> state" where
  "list_versions_try st user_id project_id =
     (if \<not> verify_project_access st project_id user_id then (Inl access_denied, st)
      else
        let versions = rev (sort_key v_version (rev (project_versions st project_id)))
        in (Inr (success_response
                   (PDict [(''versions'', PList (map version_row_dump versions))])
                   (''Found '' @ str_nat (length versions) @ '' versions'')), st))"

definition list_versions :: "state \<Rightarrow> string \<Rightarrow> string \<Rightarrow> (exn + pyval) \<times> state" where
  "list_versions st user_id project_id =
     handle_exceptions (list_versions_try st user_id project_id)"

definition empty_erd :: pyval where
  "empty_erd = PDict [(''nodes'', PList []), (''edges'', PList [])]"

definition empty_schemas :: pyval where
  "empty_schemas = PDict [(''tables'', PList []), (''relationships'', PList [])]"

text \<open>The lookup under \<open>if version_data.base_version:\<close>. It yields the three values the
  source assigns there: \<open>schemas_data\<close>, \<open>relationships\<close> and \<open>erd\<close>.\<close>

definition base_version_copy ::
  "state \<Rightarrow> string \<Rightarrow> int \<Rightarrow> exn + (pyval \<times> pyval \<times> pyval) option" where
  "base_version_copy st project_id base_version =
     ebind (single (select_version st project_id base_version))
       (\<lambda>data. case data of
          None \<Rightarrow> Inr None
        | Some row \<Rightarrow>
            (case find_one st (v_mongo_id row) of
               None \<Rightarrow> Inr None
             | Some base_mongo_doc \<Rightarrow>
                 Inr (Some (dict_get base_mongo_doc ''schemas'' (PDict []),
                            dict_get base_mongo_doc ''relationships'' (PList []),
                            dict_get base_mongo_doc ''erd'' empty_erd))))"

definition next_version_of :: "state \<Rightarrow> string \<Rightarrow> int" where
  "next_version_of st project_id =
     (case take 1 (rev (sort (map v_version (project_versions st project_id)))) of
        [] \<Rightarrow> 1
      | v # _ \<Rightarrow> v + 1)"

text \<open>The conversion of \<open>schemas\<close> for the document store. \<open>schemas\<close> is the request's list
  of \<open>Schema\<close> objects or the default one, so the first branch is the one taken whenever
  it is non-empty; the \<open>elif isinstance(schemas, dict)\<close> branch needs a dict and is never
  entered.\<close>

definition schemas_to_dict :: "Schema list \<Rightarrow> pyval" where
  "schemas_to_dict schemas =
     (if schemas \<noteq> [] then
        PDict [(''tables'', PList (map PDict (concat (map (\<lambda>schema. map Table_model_dump (s_tables schema))
                                                      schemas)))),
               (''relationships'', PList [])]
      else empty_schemas)"

definition isoformat_field :: "string \<Rightarrow> pydict \<Rightarrow> pydict" where
  "isoformat_field k d =
     (case map_of d k of
        Some (PDatetime t) \<Rightarrow> AList.update k (PStr t) d
      | _ \<Rightarrow> d)"

definition dictionary_doc ::
  "env \<Rightarrow> string \<Rightarrow> int \<Rightarrow> CreateVersionRequest \<Rightarrow> pyval \<Rightarrow> pyval \<Rightarrow> pyval \<Rightarrow> pydict" where
  "dictionary_doc e project_id next_version version_data schemas_dict relationships erd =
     [(''projectId'', PStr project_id),
      (''version'', PInt next_version),
      (''name'', PStr (cv_name version_data)),
      (''description'', opt_str (cv_description version_data)),
      (''schemas'', schemas_dict),
      (''relationships'', relationships),
      (''erd'', erd),
      (''metadata'', PDict []),
      (''created_at'', PDatetime (env_utcnow e 0)),
      (''updated_at'', PDatetime (env_utcnow e 1))]"

definition version_metadata ::
  "env \<Rightarrow> string \<Rightarrow> int \<Rightarrow> string \<Rightarrow> CreateVersionRequest \<Rightarrow> version_row" where
  "version_metadata e project_id next_version mongo_id version_data =
     \<lparr>v_id = env_uuid4 e, v_project_id = project_id, v_version = next_version,
      v_mongo_id = mongo_id, v_name = cv_name version_data,
      v_description = cv_description version_data, v_is_latest = True,
      v_metadata = PDict [], v_created_at = env_utcnow e 2\<rparr>"

text \<open>The two writes to \<open>dictionary_versions\<close>: \<open>update({"is_latest": False})\<close> on the rows
  of the project, and the insert of the new row.\<close>

definition clear_latest :: "state \<Rightarrow> string \<Rightarrow> state" where
  "clear_latest st project_id =
     st\<lparr>dictionary_versions :=
          map (\<lambda>r. if v_project_id r = project_id then r\<lparr>v_is_latest := False\<rparr> else r)
              (dictionary_versions st)\<rparr>"

definition insert_version :: "state \<Rightarrow> version_row \<Rightarrow> state" where
  "insert_version st row = st\<lparr>dictionary_versions := dictionary_versions st @ [row]\<rparr>"

definition returned_doc :: "pydict \<Rightarrow> string \<Rightarrow> pydict" where
  "returned_doc doc mongo_id =
     isoformat_field ''updated_at''
       (isoformat_field ''created_at''
          (AList.update ''_id'' (PStr mongo_id) (doc @ [(''_id'', PObjectId mongo_id)])))"

definition create_version_try ::
  "state \<Rightarrow> env \<Rightarrow> string \<Rightarrow> string \<Rightarrow> CreateVersionRequest \<Rightarrow> (exn + pyval) \<times> state" where
  "create_version_try st e user_id project_id version_data =
     (if \<not> verify_project_access st project_id user_id then (Inl access_denied, st)
      else if \<not> mongo_available st then (Inl mongo_unavailable, st)
      else
        let next_version = next_version_of st project_id;
            schemas = (if cv_schemas version_data \<noteq> [] then cv_schemas version_data
                       else create_initial_schema)
        in
        case (case cv_base_version version_data of
                None \<Rightarrow> Inr None
              | Some b \<Rightarrow> if b \<noteq> 0 then base_version_copy st project_id b else Inr None) of
          Inl ex \<Rightarrow> (Inl ex, st)
        | Inr copied \<Rightarrow>
            let schemas_data = map_option fst copied;
                relationships = (case copied of None \<Rightarrow> PList [] | Some c \<Rightarrow> fst (snd c));
                erd = (case copied of None \<Rightarrow> empty_erd | Some c \<Rightarrow> snd (snd c));
                schemas_dict = schemas_to_dict schemas;
                doc = dictionary_doc e project_id next_version version_data
                        schemas_dict relationships erd;
                mongo_id = env_object_id e;
                st1 = insert_one st mongo_id doc;
                st2 = clear_latest st1 project_id;
                row = version_metadata e project_id next_version mongo_id version_data;
                st3 = insert_version st2 row
            in (Inr (success_response
                       (PDict [(''version'', version_row_dump row),
                               (''dictionary'', PDict (returned_doc doc mongo_id))])
                       (''Version '' @ str_int next_version @ '' created successfully'')), st3))"

definition create_version ::
  "state \<Rightarrow> env \<Rightarrow> string \<Rightarrow> string \<Rightarrow> CreateVersionRequest \<Rightarrow> (exn + pyval) \<times> state" where
  "create_version st e user_id project_id version_data =
     handle_exceptions (create_version_try st e user_id project_id version_data)"

text \<open>What \<open>get_latest_version\<close> and \<open>get_specific_version\<close> do with the result of
  \<open>find_one\<close>: a document found gets its \<open>_id\<close> and dates as strings, a missing one stays
  \<open>None\<close>.\<close>

definition returned_dictionary :: "pydict option \<Rightarrow> pyval" where
  "returned_dictionary dictionary =
     (case dictionary of
        None \<Rightarrow> PNone
      | Some d \<Rightarrow>
          if d \<noteq> [] then
            PDict (isoformat_field ''updated_at''
                     (isoformat_field ''created_at''
                        (AList.update ''_id'' (case dict_get d ''_id'' PNone of
                                                 PObjectId i \<Rightarrow> PStr i | x \<Rightarrow> x) d)))
          else PDict d)"

definition get_latest_version_try :: "state \<Rightarrow> string \<Rightarrow> string \<Rightarrow> (exn + pyval) \<times> state" where
  "get_latest_version_try st user_id project_id =
     (if \<not> verify_project_access st project_id user_id then (Inl access_denied, st)
      else
        let rows = take 1 (filter (\<lambda>r. v_is_latest r) (project_versions st project_id))
        in
        case rows of
          [] \<Rightarrow> (Inr (success_response
                        (PDict [(''version'', PNone), (''dictionary'', PNone)])
                        ''No versions found for this project''), st)
        | latest_row # _ \<Rightarrow>
            if \<not> mongo_available st then (Inl mongo_unavailable, st)
            else
              let dictionary = find_one st (v_mongo_id latest_row)
              in (Inr (success_response
                         (PDict [(''version'', version_row_dump latest_row),
                                 (''dictionary'', returned_dictionary dictionary)])
                         ''Latest version retrieved successfully''), st))"

definition get_latest_version :: "state \<Rightarrow> string \<Rightarrow> string \<Rightarrow> (exn + pyval) \<times> state" where
  "get_latest_version st user_id project_id =
     handle_exceptions (get_latest_version_try st user_id project_id)"

definition version_not_found :: "int \<Rightarrow> exn" where
  "version_not_found version = NotFoundError (''Version '' @ str_int version @ '' not found'')"

definition get_specific_version_try ::
  "state \<Rightarrow> string \<Rightarrow> string \<Rightarrow> int \<Rightarrow> (exn + pyval) \<times> state" where
  "get_specific_version_try st user_id project_id version =
     (if \<not> verify_project_access st project_id user_id then (Inl access_denied, st)
      else
        case single (select_version st project_id version) of
          Inl ex \<Rightarrow> (Inl ex, st)
        | Inr None \<Rightarrow> (Inl (version_not_found version), st)
        | Inr (Some row) \<Rightarrow>
            if \<not> mongo_available st then (Inl mongo_unavailable, st)
            else
              let dictionary = find_one st (v_mongo_id row)
              in (Inr (success_response
                         (PDict [(''version'', version_row_dump row),
                                 (''dictionary'', returned_dictionary dictionary)])
                         (''Version '' @ str_int version @ '' retrieved successfully'')), st))"

definition get_specific_version ::
  "state \<Rightarrow> string \<Rightarrow> string \<Rightarrow> int \<Rightarrow> (exn + pyval) \<times> state" where
  "get_specific_version st user_id project_id version =
     handle_exceptions (get_specific_version_try st user_id project_id version)"

text \<open>\<open>update_version\<close>. The request's \<open>erd\<close> enters as the dictionary that
  \<open>model_dump(by_alias=True, exclude_none=True)\<close> gives for it (an \<open>ERDLayout\<close> holds
  floating-point coordinates, which stay opaque here). The row is updated before the
  store handle is tested, so an error can follow a changed row.

  This endpoint alone tests the store handle with \<open>if not mongodb:\<close>. \<open>None\<close> is false,
  so the \<open>DatabaseError\<close> follows. A pymongo \<open>Database\<close> does not implement truth value
  testing: its \<open>__bool__\<close> raises \<open>NotImplementedError\<close>, which the endpoint's
  \<open>except Exception\<close> turns into an error envelope. Either way nothing after the test
  is reached.\<close>

definition database_truth_error :: exn where
  "database_truth_error =
     NotImplementedError
       (''Database objects do not implement truth value testing or bool(). ''
          @ ''Please compare with None instead: database is not None'')"

definition mongodb_bool :: "state \<Rightarrow> exn + bool" where
  "mongodb_bool st = (if mongo_available st then Inl database_truth_error else Inr False)"

definition str_given :: "string option \<Rightarrow> bool" where
  "str_given s = (case s of None \<Rightarrow> False | Some x \<Rightarrow> x \<noteq> [])"

definition supabase_updates :: "UpdateVersionRequest \<Rightarrow> version_row \<Rightarrow> version_row" where
  "supabase_updates update_data r =
     (let r1 = (if str_given (uv_name update_data) then r\<lparr>v_name := the (uv_name update_data)\<rparr>
                else r)
      in if str_given (uv_description update_data)
         then r1\<lparr>v_description := uv_description update_data\<rparr> else r1)"

definition erd_with_defaults :: "pydict \<Rightarrow> pydict" where
  "erd_with_defaults erd_data =
     (let e1 = (if map_of erd_data ''nodes'' = None then erd_data @ [(''nodes'', PList [])]
                else erd_data)
      in if map_of e1 ''edges'' = None then e1 @ [(''edges'', PList [])] else e1)"

definition mongo_updates :: "env \<Rightarrow> UpdateVersionRequest \<Rightarrow> pydict" where
  "mongo_updates e update_data =
     [(''updated_at'', PDatetime (env_utcnow e 0))]
     @ (case uv_schemas update_data of None \<Rightarrow> []
        | Some schemas \<Rightarrow> [(''schemas'', schemas_to_dict schemas)])
     @ (case uv_relationships update_data of None \<Rightarrow> []
        | Some rs \<Rightarrow> [(''relationships'', PList (map PDict (map Relationship_model_dump rs)))])
     @ (case uv_erd update_data of None \<Rightarrow> []
        | Some erd \<Rightarrow> [(''erd'', PDict (erd_with_defaults erd))])
     @ (case uv_metadata update_data of None \<Rightarrow> []
        | Some m \<Rightarrow> [(''metadata'', PDict m)])
     @ (if str_given (uv_name update_data) then [(''name'', PStr (the (uv_name update_data)))]
        else [])
     @ (if str_given (uv_description update_data)
        then [(''description'', PStr (the (uv_description update_data)))] else [])"

definition dictionary_data_changed :: "UpdateVersionRequest \<Rightarrow> bool" where
  "dictionary_data_changed update_data =
     ((case uv_schemas update_data of None \<Rightarrow> False | Some x \<Rightarrow> x \<noteq> [])
      \<or> (case uv_relationships update_data of None \<Rightarrow> False | Some x \<Rightarrow> x \<noteq> [])
      \<or> (case uv_erd update_data of None \<Rightarrow> False | Some x \<Rightarrow> True)
      \<or> (case uv_metadata update_data of None \<Rightarrow> False | Some x \<Rightarrow> x \<noteq> []))"

definition update_version_try ::
  "state \<Rightarrow> env \<Rightarrow> string \<Rightarrow> string \<Rightarrow> int \<Rightarrow> UpdateVersionRequest
     \<Rightarrow> (exn + pyval) \<times> state" where
  "update_version_try st e user_id project_id version update_data =
     (if \<not> verify_project_access st project_id user_id then (Inl access_denied, st)
      else
        case single (select_version st project_id version) of
          Inl ex \<Rightarrow> (Inl ex, st)
        | Inr None \<Rightarrow> (Inl (version_not_found version), st)
        | Inr (Some row) \<Rightarrow>
            let st1 = (if str_given (uv_name update_data) \<or> str_given (uv_description update_data)
                       then st\<lparr>dictionary_versions :=
                                 map (\<lambda>r. if v_id r = v_id row then supabase_updates update_data r
                                          else r)
                                     (dictionary_versions st)\<rparr>
                       else st);
                updated = success_response (PDict [(''version'', PInt version)])
                         (''Version '' @ str_int version @ '' updated successfully'')
            in
            if dictionary_data_changed update_data then
              (case mongodb_bool st1 of
                 Inl ex \<Rightarrow> (Inl ex, st1)
               | Inr mongodb \<Rightarrow>
                   if \<not> mongodb then (Inl mongo_unavailable, st1)
                   else (Inr updated,
                         snd (update_one st1 (v_mongo_id row) (mongo_updates e update_data))))
            else (Inr updated, st1))"

definition update_version ::
  "state \<Rightarrow> env \<Rightarrow> string \<Rightarrow> string \<Rightarrow> int \<Rightarrow> UpdateVersionRequest
     \<Rightarrow> (exn + pyval) \<times> state" where
  "update_version st e user_id project_id version update_data =
     handle_exceptions (update_version_try st e user_id project_id version update_data)"

text \<open>\<open>delete_version\<close>. \<open>sorted(..., key=version, reverse=True)\<close> keeps the order of rows
  with equal keys, as reversing, sorting stably and reversing again does.\<close>

definition sorted_desc :: "version_row list \<Rightarrow> version_row list" where
  "sorted_desc rows = rev (sort_key v_version (rev rows))"

definition promote :: "state \<Rightarrow> string \<Rightarrow> int \<Rightarrow> state" where
  "promote st project_id version =
     st\<lparr>dictionary_versions :=
          map (\<lambda>r. if v_project_id r = project_id \<and> v_version r = version
                   then r\<lparr>v_is_latest := True\<rparr> else r)
              (dictionary_versions st)\<rparr>"

definition delete_row :: "state \<Rightarrow> string \<Rightarrow> int \<Rightarrow> state" where
  "delete_row st project_id version =
     st\<lparr>dictionary_versions :=
          filter (\<lambda>r. \<not> (v_project_id r = project_id \<and> v_version r = version))
                 (dictionary_versions st)\<rparr>"

definition delete_version_try ::
  "state \<Rightarrow> string \<Rightarrow> string \<Rightarrow> int \<Rightarrow> (exn + pyval) \<times> state" where
  "delete_version_try st user_id project_id version =
     (if \<not> verify_project_access st project_id user_id then (Inl access_denied, st)
      else
        let all_versions = project_versions st project_id
        in
        if all_versions = [] then (Inl (NotFoundError ''No versions found''), st)
        else if length all_versions = 1
        then (Inl (ValidationError ''Cannot delete the only version''), st)
        else
          case find (\<lambda>v. v_version v = version) all_versions of
            None \<Rightarrow> (Inl (version_not_found version), st)
          | Some version_to_delete \<Rightarrow>
              let st1 = (if v_is_latest version_to_delete then
                           (case sorted_desc (filter (\<lambda>v. v_version v \<noteq> version) all_versions) of
                              [] \<Rightarrow> st
                            | highest # _ \<Rightarrow> promote st project_id (v_version highest))
                         else st);
                  st2 = (if mongo_available st1
                         then delete_one st1 (v_mongo_id version_to_delete) else st1);
                  st3 = delete_row st2 project_id version
              in (Inr (success_response (PDict [(''deleted_version'', PInt version)])
                         (''Version '' @ str_int version @ '' deleted successfully'')), st3))"

definition delete_version ::
  "state \<Rightarrow> string \<Rightarrow> string \<Rightarrow> int \<Rightarrow> (exn + pyval) \<times> state" where
  "delete_version st user_id project_id version =
     handle_exceptions (delete_version_try st user_id project_id version)"

section \<open>Tables and columns of one dictionary (api/v1/tables.py)\<close>

definition get_version_mongo_id :: "state \<Rightarrow> string \<Rightarrow> int \<Rightarrow> string option" where
  "get_version_mongo_id st project_id version =
     (case single (select_version st project_id version) of
        Inr (Some row) \<Rightarrow> Some (v_mongo_id row)
      | _ \<Rightarrow> None)"

text \<open>Every endpoint of the module starts with the same steps: the ownership gate, the
  version's \<open>mongo_id\<close>, the store handle, the document.\<close>

definition fetch_dictionary ::
  "state \<Rightarrow> string \<Rightarrow> string \<Rightarrow> int \<Rightarrow> exn + (string \<times> pydict)" where
  "fetch_dictionary st user_id project_id version =
     (if \<not> verify_project_access st project_id user_id then Inl access_denied
      else
        case get_version_mongo_id st project_id version of
          None \<Rightarrow> Inl (version_not_found version)
        | Some mongo_id \<Rightarrow>
            if mongo_id = [] then Inl (version_not_found version)
            else if \<not> mongo_available st then Inl mongo_unavailable
            else
              (case find_one st mongo_id of
                 None \<Rightarrow> Inl (NotFoundError ''Dictionary not found in MongoDB'')
               | Some dictionary \<Rightarrow>
                   if dictionary = [] then Inl (NotFoundError ''Dictionary not found in MongoDB'')
                   else Inr (mongo_id, dictionary)))"

definition table_not_found :: "string \<Rightarrow> string \<Rightarrow> exn" where
  "table_not_found table_name schema_name =
     NotFoundError (''Table '' @ quote table_name @ '' not found in schema '' @ quote schema_name)"

definition column_not_found :: "string \<Rightarrow> string \<Rightarrow> exn" where
  "column_not_found column_name table_name =
     NotFoundError (''Column '' @ quote column_name @ '' not found in table '' @ quote table_name)"

definition table_matches :: "pydict \<Rightarrow> string \<Rightarrow> string \<Rightarrow> bool" where
  "table_matches table table_name schema_name =
     (dict_get table ''name'' PNone = PStr table_name
      \<and> dict_get table ''schema_name'' PNone = PStr schema_name)"

text \<open>\<open>schemas_data\<close> as the three mutating endpoints of existing tables accept it: a
  dict with a \<open>tables\<close> key, anything else is the table not found.\<close>

definition schemas_with_tables :: "pydict \<Rightarrow> string \<Rightarrow> string \<Rightarrow> exn + pydict" where
  "schemas_with_tables dictionary table_name schema_name =
     (case dict_get dictionary ''schemas'' (PDict []) of
        PDict schemas_data \<Rightarrow>
          if map_of schemas_data ''tables'' = None
          then Inl (table_not_found table_name schema_name)
          else Inr schemas_data
      | _ \<Rightarrow> Inl (table_not_found table_name schema_name))"

text \<open>The end of every mutating endpoint: \<open>update_one\<close> with the fields to \<open>$set\<close>, then
  \<open>DatabaseError\<close> when \<open>modified_count\<close> is 0, else the success envelope. What precedes it
  only reads, and yields the fields and the envelope or raises.\<close>

definition commit ::
  "state \<Rightarrow> string \<Rightarrow> string \<Rightarrow> exn + (pydict \<times> pyval) \<Rightarrow> (exn + pyval) \<times> state" where
  "commit st mongo_id failure plan =
     (case plan of
        Inl ex \<Rightarrow> (Inl ex, st)
      | Inr (sets, response) \<Rightarrow>
          (let r = update_one st mongo_id sets
           in if fst r = 0 then (Inl (DatabaseError failure), snd r) else (Inr response, snd r)))"

subsection \<open>list_tables\<close>

fun tables_in_schema :: "pyval list \<Rightarrow> string \<Rightarrow> exn + pyval list" where
  "tables_in_schema [] schema_name = Inr []"
| "tables_in_schema (PDict t # ts) schema_name =
     ebind (tables_in_schema ts schema_name)
       (\<lambda>rest. Inr (if dict_get t ''schema_name'' PNone = PStr schema_name
                     then PDict t # rest else rest))"
| "tables_in_schema (v # ts) schema_name = Inl (no_attribute v ''get'')"

definition listed_tables :: "pydict \<Rightarrow> string option \<Rightarrow> exn + pyval" where
  "listed_tables dictionary schema_name =
     (case dict_get dictionary ''schemas'' (PDict []) of
        PDict schemas_data \<Rightarrow>
          if map_of schemas_data ''tables'' \<noteq> None then
            (let all_tables = dict_get schemas_data ''tables'' (PList [])
             in if str_given schema_name
                then ebind (py_iter all_tables)
                       (\<lambda>ts. ebind (tables_in_schema ts (the schema_name)) (\<lambda>r. Inr (PList r)))
                else Inr all_tables)
          else Inr (PList [])
      | _ \<Rightarrow> Inr (PList []))"

definition list_tables_try ::
  "state \<Rightarrow> string \<Rightarrow> string \<Rightarrow> int \<Rightarrow> string option \<Rightarrow> (exn + pyval) \<times> state" where
  "list_tables_try st user_id project_id version schema_name =
     (ebind (fetch_dictionary st user_id project_id version)
        (\<lambda>fetched. ebind (listed_tables (snd fetched) schema_name)
           (\<lambda>tables. ebind (py_len tables)
              (\<lambda>n. Inr (success_response
                           (PDict [(''tables'', tables), (''schema'', opt_str schema_name),
                                   (''count'', PInt (int n))])
                           (''Found '' @ str_nat n @ '' tables in schema ''
                              @ (case schema_name of None \<Rightarrow> ''None'' | Some x \<Rightarrow> x)))))),
      st)"

definition list_tables ::
  "state \<Rightarrow> string \<Rightarrow> string \<Rightarrow> int \<Rightarrow> string option \<Rightarrow> (exn + pyval) \<times> state" where
  "list_tables st user_id project_id version schema_name =
     handle_exceptions (list_tables_try st user_id project_id version schema_name)"

subsection \<open>create_table\<close>

fun table_exists :: "pyval list \<Rightarrow> string \<Rightarrow> string \<Rightarrow> exn + bool" where
  "table_exists [] table_name schema_name = Inr False"
| "table_exists (PDict t # ts) table_name schema_name =
     (if table_matches t table_name schema_name then Inr True
      else table_exists ts table_name schema_name)"
| "table_exists (v # ts) table_name schema_name = Inl (no_attribute v ''get'')"

definition default_columns :: pyval where
  "default_columns =
     PList [PDict [(''name'', PStr ''id''), (''data_type'', PStr ''bigint''),
                   (''key'', PStr ''PK''), (''nullable'', PBool False),
                   (''description'', PStr ''Primary key''), (''is_unique'', PBool True),
                   (''is_indexed'', PBool True)]]"

definition new_table :: "TableRequest \<Rightarrow> pydict" where
  "new_table table_data =
     (let dumped = TableRequest_model_dump table_data
      in if \<not> truthy (dict_get dumped ''columns'' PNone)
         then AList.update ''columns'' default_columns dumped else dumped)"

definition create_table_plan :: "env \<Rightarrow> pydict \<Rightarrow> TableRequest \<Rightarrow> exn + (pydict \<times> pyval)" where
  "create_table_plan e dictionary table_data =
     (let schemas_data =
            (case dict_get dictionary ''schemas'' (PDict []) of
               PDict d \<Rightarrow> if map_of d ''tables'' \<noteq> None then d
                          else [(''tables'', PList []), (''relationships'', PList [])]
             | _ \<Rightarrow> [(''tables'', PList []), (''relationships'', PList [])])
      in
      ebind (py_iter (dict_get schemas_data ''tables'' (PList [])))
        (\<lambda>ts. ebind (table_exists ts (tr_name table_data) (tr_schema_name table_data))
           (\<lambda>clash.
              if clash then
                Inl (ConflictError (''Table '' @ quote (tr_name table_data)
                       @ '' already exists in schema '' @ quote (tr_schema_name table_data)))
              else
                (case dict_get schemas_data ''tables'' PNone of
                   PList present \<Rightarrow>
                     Inr ([(''schemas'', PDict (AList.update ''tables''
                                                 (PList (present @ [PDict (new_table table_data)]))
                                                 schemas_data)),
                           (''updated_at'', PDatetime (env_utcnow e 0))],
                          success_response (PDict [(''table'', PDict (new_table table_data))])
                            (''Table '' @ quote (tr_name table_data)
                               @ '' created successfully in schema ''
                               @ quote (tr_schema_name table_data)))
                 | v \<Rightarrow> Inl (no_attribute v ''append'')))))"

definition create_table_try ::
  "state \<Rightarrow> env \<Rightarrow> string \<Rightarrow> string \<Rightarrow> int \<Rightarrow> TableRequest \<Rightarrow> (exn + pyval) \<times> state" where
  "create_table_try st e user_id project_id version table_data =
     (case fetch_dictionary st user_id project_id version of
        Inl ex \<Rightarrow> (Inl ex, st)
      | Inr fetched \<Rightarrow>
          commit st (fst fetched) ''Failed to create table''
            (create_table_plan e (snd fetched) table_data))"

definition create_table ::
  "state \<Rightarrow> env \<Rightarrow> string \<Rightarrow> string \<Rightarrow> int \<Rightarrow> TableRequest \<Rightarrow> (exn + pyval) \<times> state" where
  "create_table st e user_id project_id version table_data =
     handle_exceptions (create_table_try st e user_id project_id version table_data)"

subsection \<open>update_table\<close>

text \<open>The loop over \<open>enumerate(tables)\<close>: the first table that matches is replaced by the
  dumped request, which keeps the old columns when it brings none; \<open>None\<close> stands for
  \<open>table_found\<close> left false.\<close>

definition updated_table :: "TableRequest \<Rightarrow> pydict \<Rightarrow> pydict" where
  "updated_table table_data table =
     (let dumped = TableRequest_model_dump table_data
      in if map_of dumped ''columns'' = None \<or> \<not> truthy (dict_get dumped ''columns'' PNone)
         then AList.update ''columns'' (dict_get table ''columns'' (PList [])) dumped
         else dumped)"

fun update_table_loop ::
  "pyval list \<Rightarrow> pyval list \<Rightarrow> nat \<Rightarrow> string \<Rightarrow> string \<Rightarrow> TableRequest
     \<Rightarrow> exn + pyval list option" where
  "update_table_loop tables [] i table_name schema_name table_data = Inr None"
| "update_table_loop tables (PDict table # rest) i table_name schema_name table_data =
     (if table_matches table table_name schema_name then
        (if dict_get (updated_table table_data table) ''name'' PNone \<noteq> PStr table_name then
           ebind (table_exists tables (tr_name table_data) schema_name)
             (\<lambda>clash. if clash
                then Inl (ConflictError (''Table '' @ quote (tr_name table_data)
                                           @ '' already exists''))
                else Inr (Some (tables[i := PDict (updated_table table_data table)])))
         else Inr (Some (tables[i := PDict (updated_table table_data table)])))
      else update_table_loop tables rest (Suc i) table_name schema_name table_data)"
| "update_table_loop tables (v # rest) i table_name schema_name table_data =
     Inl (no_attribute v ''get'')"

definition update_table_plan ::
  "env \<Rightarrow> pydict \<Rightarrow> string \<Rightarrow> string \<Rightarrow> TableRequest \<Rightarrow> exn + (pydict \<times> pyval)" where
  "update_table_plan e dictionary table_name schema_name table_data =
     ebind (schemas_with_tables dictionary table_name schema_name)
       (\<lambda>schemas_data.
          ebind (py_iter (dict_get schemas_data ''tables'' (PList [])))
            (\<lambda>ts. ebind (update_table_loop ts ts 0 table_name schema_name table_data)
               (\<lambda>found. case found of
                  None \<Rightarrow> Inl (table_not_found table_name schema_name)
                | Some tables \<Rightarrow>
                    Inr ([(''schemas'', PDict (AList.update ''tables'' (PList tables) schemas_data)),
                          (''updated_at'', PDatetime (env_utcnow e 0))],
                         success_response
                           (PDict [(''table'', PDict (TableRequest_model_dump table_data))])
                           (''Table '' @ quote table_name @ '' updated successfully'')))))"

definition update_table_try ::
  "state \<Rightarrow> env \<Rightarrow> string \<Rightarrow> string \<Rightarrow> int \<Rightarrow> string \<Rightarrow> string \<Rightarrow> TableRequest
     \<Rightarrow> (exn + pyval) \<times> state" where
  "update_table_try st e user_id project_id version table_name schema_name table_data =
     (case fetch_dictionary st user_id project_id version of
        Inl ex \<Rightarrow> (Inl ex, st)
      | Inr fetched \<Rightarrow>
          commit st (fst fetched) ''Failed to update table''
            (update_table_plan e (snd fetched) table_name schema_name table_data))"

definition update_table ::
  "state \<Rightarrow> env \<Rightarrow> string \<Rightarrow> string \<Rightarrow> int \<Rightarrow> string \<Rightarrow> string \<Rightarrow> TableRequest
     \<Rightarrow> (exn + pyval) \<times> state" where
  "update_table st e user_id project_id version table_name schema_name table_data =
     handle_exceptions
       (update_table_try st e user_id project_id version table_name schema_name table_data)"

subsection \<open>delete_table\<close>

text \<open>The loop over \<open>enumerate(tables)\<close> pops the first table that matches and stops;
  \<open>None\<close> stands for \<open>table_found\<close> left false.\<close>

fun delete_table_loop ::
  "pyval list \<Rightarrow> pyval list \<Rightarrow> nat \<Rightarrow> string \<Rightarrow> string \<Rightarrow> exn + (pyval \<times> pyval list) option" where
  "delete_table_loop tables [] i table_name schema_name = Inr None"
| "delete_table_loop tables (PDict table # rest) i table_name schema_name =
     (if table_matches table table_name schema_name
      then Inr (Some (PDict table, take i tables @ drop (Suc i) tables))
      else delete_table_loop tables rest (Suc i) table_name schema_name)"
| "delete_table_loop tables (v # rest) i table_name schema_name = Inl (no_attribute v ''get'')"

fun relationships_without_table :: "pyval list \<Rightarrow> string \<Rightarrow> exn + pyval list" where
  "relationships_without_table [] table_name = Inr []"
| "relationships_without_table (PDict rel # rels) table_name =
     ebind (relationships_without_table rels table_name)
       (\<lambda>rest. Inr (if dict_get rel ''source_table'' PNone \<noteq> PStr table_name
                        \<and> dict_get rel ''target_table'' PNone \<noteq> PStr table_name
                     then PDict rel # rest else rest))"
| "relationships_without_table (v # rels) table_name = Inl (no_attribute v ''get'')"

definition delete_table_plan ::
  "env \<Rightarrow> pydict \<Rightarrow> string \<Rightarrow> string \<Rightarrow> exn + (pydict \<times> pyval)" where
  "delete_table_plan e dictionary table_name schema_name =
     ebind (schemas_with_tables dictionary table_name schema_name)
       (\<lambda>schemas_data.
          ebind (py_iter (dict_get schemas_data ''tables'' (PList [])))
            (\<lambda>ts. ebind (delete_table_loop ts ts 0 table_name schema_name)
               (\<lambda>found. case found of
                  None \<Rightarrow> Inl (table_not_found table_name schema_name)
                | Some popped \<Rightarrow>
                    ebind (py_iter (dict_get dictionary ''relationships'' (PList [])))
                      (\<lambda>relationships.
                         ebind (relationships_without_table relationships table_name)
                           (\<lambda>updated_relationships.
                              Inr ([(''schemas'', PDict (AList.update ''tables''
                                                          (PList (snd popped)) schemas_data)),
                                    (''relationships'', PList updated_relationships),
                                    (''updated_at'', PDatetime (env_utcnow e 0))],
                                   success_response
                                     (PDict [(''deleted_table'', fst popped),
                                             (''relationships_removed'',
                                              PInt (int (length relationships)
                                                    - int (length updated_relationships)))])
                                     (''Table '' @ quote table_name
                                        @ '' deleted successfully from schema ''
                                        @ quote schema_name)))))))"

definition delete_table_try ::
  "state \<Rightarrow> env \<Rightarrow> string \<Rightarrow> string \<Rightarrow> int \<Rightarrow> string \<Rightarrow> string \<Rightarrow> (exn + pyval) \<times> state" where
  "delete_table_try st e user_id project_id version table_name schema_name =
     (case fetch_dictionary st user_id project_id version of
        Inl ex \<Rightarrow> (Inl ex, st)
      | Inr fetched \<Rightarrow>
          commit st (fst fetched) ''Failed to delete table''
            (delete_table_plan e (snd fetched) table_name schema_name))"

definition delete_table ::
  "state \<Rightarrow> env \<Rightarrow> string \<Rightarrow> string \<Rightarrow> int \<Rightarrow> string \<Rightarrow> string \<Rightarrow> (exn + pyval) \<times> state" where
  "delete_table st e user_id project_id version table_name schema_name =
     handle_exceptions (delete_table_try st e user_id project_id version table_name schema_name)"

subsection \<open>delete_column\<close>

definition is_pk :: "pydict \<Rightarrow> bool" where
  "is_pk col = (dict_get col ''key'' PNone = PStr ''PK'' \<or> truthy (dict_get col ''isPK'' PNone))"

fun pk_count :: "pyval list \<Rightarrow> exn + nat" where
  "pk_count [] = Inr 0"
| "pk_count (PDict c # cs) = ebind (pk_count cs) (\<lambda>n. Inr (if is_pk c then Suc n else n))"
| "pk_count (v # cs) = Inl (no_attribute v ''get'')"

text \<open>The loop over \<open>enumerate(columns)\<close>: at the first column of that name, the two
  refusals, else the column is popped; \<open>None\<close> stands for \<open>column_found\<close> left false.\<close>

fun delete_column_loop ::
  "pyval list \<Rightarrow> pyval list \<Rightarrow> nat \<Rightarrow> string \<Rightarrow> exn + pyval list option" where
  "delete_column_loop columns [] i column_name = Inr None"
| "delete_column_loop columns (PDict col # rest) i column_name =
     (if dict_get col ''name'' PNone = PStr column_name then
        (if length columns = 1
         then Inl (ValidationError ''Cannot delete the last column in a table'')
         else if is_pk col then
           ebind (pk_count columns)
             (\<lambda>n. if n = 1 then Inl (ValidationError ''Cannot delete the only primary key column'')
                   else Inr (Some (take i columns @ drop (Suc i) columns)))
         else Inr (Some (take i columns @ drop (Suc i) columns)))
      else delete_column_loop columns rest (Suc i) column_name)"
| "delete_column_loop columns (v # rest) i column_name = Inl (no_attribute v ''get'')"

text \<open>The loop over \<open>tables\<close>: only the first table that matches is looked at. It yields
  the table list with that table's columns replaced, or the exception raised inside or
  after the loop (\<open>table_found\<close> or \<open>column_found\<close> left false).\<close>

fun delete_column_tables ::
  "pyval list \<Rightarrow> pyval list \<Rightarrow> nat \<Rightarrow> string \<Rightarrow> string \<Rightarrow> string \<Rightarrow> exn + pyval list" where
  "delete_column_tables tables [] j table_name schema_name column_name =
     Inl (table_not_found table_name schema_name)"
| "delete_column_tables tables (PDict table # rest) j table_name schema_name column_name =
     (if table_matches table table_name schema_name then
        ebind (py_iter (dict_get table ''columns'' (PList [])))
          (\<lambda>columns. ebind (delete_column_loop columns columns 0 column_name)
             (\<lambda>found. case found of
                None \<Rightarrow> Inl (column_not_found column_name table_name)
              | Some columns' \<Rightarrow>
                  Inr (tables[j := PDict (AList.update ''columns'' (PList columns') table)])))
      else delete_column_tables tables rest (Suc j) table_name schema_name column_name)"
| "delete_column_tables tables (v # rest) j table_name schema_name column_name =
     Inl (no_attribute v ''get'')"

fun relationships_without_column :: "pyval list \<Rightarrow> string \<Rightarrow> string \<Rightarrow> exn + pyval list" where
  "relationships_without_column [] table_name column_name = Inr []"
| "relationships_without_column (PDict rel # rels) table_name column_name =
     ebind (relationships_without_column rels table_name column_name)
       (\<lambda>rest. Inr (if \<not> ((dict_get rel ''source_table'' PNone = PStr table_name
                              \<and> dict_get rel ''source_column'' PNone = PStr column_name)
                             \<or> (dict_get rel ''target_table'' PNone = PStr table_name
                                \<and> dict_get rel ''target_column'' PNone = PStr column_name))
                     then PDict rel # rest else rest))"
| "relationships_without_column (v # rels) table_name column_name = Inl (no_attribute v ''get'')"

definition delete_column_plan ::
  "env \<Rightarrow> pydict \<Rightarrow> string \<Rightarrow> string \<Rightarrow> string \<Rightarrow> exn + (pydict \<times> pyval)" where
  "delete_column_plan e dictionary table_name column_name schema_name =
     ebind (schemas_with_tables dictionary table_name schema_name)
       (\<lambda>schemas_data.
          ebind (py_iter (dict_get schemas_data ''tables'' (PList [])))
            (\<lambda>ts. ebind (delete_column_tables ts ts 0 table_name schema_name column_name)
               (\<lambda>tables.
                  ebind (py_iter (dict_get dictionary ''relationships'' (PList [])))
                    (\<lambda>relationships.
                       ebind (relationships_without_column relationships table_name column_name)
                         (\<lambda>updated_relationships.
                            Inr ([(''schemas'', PDict (AList.update ''tables'' (PList tables)
                                                        schemas_data)),
                                  (''relationships'', PList updated_relationships),
                                  (''updated_at'', PDatetime (env_utcnow e 0))],
                                 success_response
                                   (PDict [(''deleted_column'', PStr column_name),
                                           (''relationships_removed'',
                                            PInt (int (length relationships)
                                                  - int (length updated_relationships)))])
                                   (''Column '' @ quote column_name
                                      @ '' deleted successfully from table ''
                                      @ quote table_name)))))))"

definition delete_column_try ::
  "state \<Rightarrow> env \<Rightarrow> string \<Rightarrow> string \<Rightarrow> int \<Rightarrow> string \<Rightarrow> string \<Rightarrow> string
     \<Rightarrow> (exn + pyval) \<times> state" where
  "delete_column_try st e user_id project_id version table_name column_name schema_name =
     (case fetch_dictionary st user_id project_id version of
        Inl ex \<Rightarrow> (Inl ex, st)
      | Inr fetched \<Rightarrow>
          commit st (fst fetched) ''Failed to delete column''
            (delete_column_plan e (snd fetched) table_name column_name schema_name))"

definition delete_column ::
  "state \<Rightarrow> env \<Rightarrow> string \<Rightarrow> string \<Rightarrow> int \<Rightarrow> string \<Rightarrow> string \<Rightarrow> string
     \<Rightarrow> (exn + pyval) \<times> state" where
  "delete_column st e user_id project_id version table_name column_name schema_name =
     handle_exceptions
       (delete_column_try st e user_id project_id version table_name column_name schema_name)"

subsection \<open>get_table\<close>

text \<open>The two nested loops of \<open>get_table\<close>: over \<open>dictionary.get("schemas", [])\<close>, and in
  the first schema of the asked name over its tables. The result is \<open>target_table\<close>,
  \<open>None\<close> when nothing was found.\<close>

fun find_target_table :: "pyval list \<Rightarrow> string \<Rightarrow> exn + pyval" where
  "find_target_table [] table_name = Inr PNone"
| "find_target_table (PDict table # rest) table_name =
     (if dict_get table ''name'' PNone = PStr table_name then Inr (PDict table)
      else find_target_table rest table_name)"
| "find_target_table (v # rest) table_name = Inl (no_attribute v ''get'')"

fun find_in_schemas :: "pyval list \<Rightarrow> string \<Rightarrow> string \<Rightarrow> exn + pyval" where
  "find_in_schemas [] schema_name table_name = Inr PNone"
| "find_in_schemas (PDict schema # rest) schema_name table_name =
     (if dict_get schema ''name'' PNone = PStr schema_name
      then ebind (py_iter (dict_get schema ''tables'' (PList [])))
             (\<lambda>tables. find_target_table tables table_name)
      else find_in_schemas rest schema_name table_name)"
| "find_in_schemas (v # rest) schema_name table_name = Inl (no_attribute v ''get'')"

fun relationships_of_table :: "pyval list \<Rightarrow> string \<Rightarrow> exn + pyval list" where
  "relationships_of_table [] table_name = Inr []"
| "relationships_of_table (PDict rel # rels) table_name =
     ebind (relationships_of_table rels table_name)
       (\<lambda>rest. Inr (if dict_get rel ''source_table'' PNone = PStr table_name
                        \<or> dict_get rel ''target_table'' PNone = PStr table_name
                     then PDict rel # rest else rest))"
| "relationships_of_table (v # rels) table_name = Inl (no_attribute v ''get'')"

definition found_table :: "pydict \<Rightarrow> string \<Rightarrow> string \<Rightarrow> exn + pyval" where
  "found_table dictionary table_name schema_name =
     ebind (py_iter (dict_get dictionary ''schemas'' (PList [])))
       (\<lambda>schemas. ebind (find_in_schemas schemas schema_name table_name)
          (\<lambda>target_table.
             if \<not> truthy target_table then Inl (table_not_found table_name schema_name)
             else
               ebind (py_iter (dict_get dictionary ''relationships'' (PList [])))
                 (\<lambda>rels. ebind (relationships_of_table rels table_name)
                    (\<lambda>relationships.
                       Inr (success_response
                              (PDict [(''table'', target_table),
                                      (''relationships'', PList relationships)])
                              (''Table '' @ quote table_name @ '' retrieved successfully''))))))"

definition get_table_try ::
  "state \<Rightarrow> string \<Rightarrow> string \<Rightarrow> int \<Rightarrow> string \<Rightarrow> string \<Rightarrow> (exn + pyval) \<times> state" where
  "get_table_try st user_id project_id version table_name schema_name =
     (ebind (fetch_dictionary st user_id project_id version)
        (\<lambda>fetched. found_table (snd fetched) table_name schema_name),
      st)"

definition get_table ::
  "state \<Rightarrow> string \<Rightarrow> string \<Rightarrow> int \<Rightarrow> string \<Rightarrow> string \<Rightarrow> (exn + pyval) \<times> state" where
  "get_table st user_id project_id version table_name schema_name =
     handle_exceptions (get_table_try st user_id project_id version table_name schema_name)"

section \<open>Projects (api/v1/projects.py)\<close>

text \<open>
  Three endpoints of the module write: \<open>create_project\<close>, \<open>update_project\<close> and
  \<open>delete_project\<close>. (\<open>list_projects\<close> and \<open>get_project\<close> only select from
  \<open>projects\<close>.) Their handlers turn any exception that is not an \<open>HTTPException\<close> into
  an \<open>HTTPException\<close> of status 500, whose detail \<open>handle_project_error\<close> builds;
  \<open>debug\<close> is \<open>settings.DEBUG\<close>.
\<close>

record CreateProjectRequest =
  cp_name :: string
  cp_description :: "string option"

record UpdateProjectRequest =
  up_name :: "string option"
  up_description :: "string option"

text \<open>The columns that the relational store fills in when a project row is inserted.\<close>

record generated =
  g_id :: string
  g_created_at :: string
  g_updated_at :: "string option"

text \<open>\<open>str.strip()\<close>, on characters below 256.\<close>

definition isspace :: "char \<Rightarrow> bool" where
  "isspace c =
     (c \<in> set [CHR 0x09, CHR 0x0A, CHR 0x0B, CHR 0x0C, CHR 0x0D, CHR 0x1C, CHR 0x1D, CHR 0x1E,
                CHR 0x1F, CHR 0x20, CHR 0x85, CHR 0xA0])"

definition strip :: "string \<Rightarrow> string" where
  "strip s = rev (dropWhile isspace (rev (dropWhile isspace s)))"

definition handle_project_error :: "bool \<Rightarrow> exn \<Rightarrow> string \<Rightarrow> string" where
  "handle_project_error debug error context =
     (if debug then context @ '': '' @ str_exn error else context)"

definition project_exceptions ::
  "bool \<Rightarrow> string \<Rightarrow> (exn + pyval) \<times> state \<Rightarrow> (exn + pyval) \<times> state" where
  "project_exceptions debug context r =
     (case fst r of
        Inr v \<Rightarrow> r
      | Inl (HTTPException c d) \<Rightarrow> r
      | Inl e \<Rightarrow> (Inl (HTTPException 500 (handle_project_error debug e context)), snd r))"

definition opt_datetime :: "string option \<Rightarrow> pyval" where
  "opt_datetime t = (case t of None \<Rightarrow> PNone | Some x \<Rightarrow> PDatetime x)"

definition ProjectResponse :: "project_row \<Rightarrow> pyval" where
  "ProjectResponse project =
     PDict [(''id'', PStr (p_id project)), (''owner_id'', PStr (p_owner_id project)),
            (''name'', PStr (p_name project)), (''description'', opt_str (p_description project)),
            (''created_at'', PDatetime (p_created_at project)),
            (''updated_at'', opt_datetime (p_updated_at project))]"

definition ProjectDetailResponse :: "project_row \<Rightarrow> pyval" where
  "ProjectDetailResponse project =
     PDict [(''status'', PStr ''success''), (''project'', ProjectResponse project)]"

definition owned_project :: "state \<Rightarrow> string \<Rightarrow> string \<Rightarrow> project_row list" where
  "owned_project st project_id user_id =
     filter (\<lambda>p. p_id p = project_id \<and> p_owner_id p = user_id) (projects st)"

subsection \<open>create_project\<close>

text \<open>\<open>create_initial_dictionary\<close> builds the same sample table and schema as
  \<open>create_initial_schema\<close> of versions.py, stores the document of version 1 and inserts
  its row with \<open>is_latest\<close> set. It returns the \<open>mongo_id\<close>, or \<open>None\<close> when the
  document store is not available.\<close>

definition default_schema :: Schema where
  "default_schema =
     (Schema_init ''public'')
       \<lparr>s_description := Some ''Default public schema'', s_tables := [sample_table]\<rparr>"

definition initial_dictionary_doc :: "env \<Rightarrow> string \<Rightarrow> pydict" where
  "initial_dictionary_doc e project_id =
     [(''projectId'', PStr project_id),
      (''version'', PInt 1),
      (''name'', PStr ''Initial Version''),
      (''description'', PStr ''Automatically created initial version''),
      (''schemas'', PDict [(''tables'', PList (map PDict (map Table_model_dump
                                                             (s_tables default_schema)))),
                           (''relationships'', PList [])]),
      (''relationships'', PList []),
      (''erd'', PDict [(''nodes'', PList []), (''edges'', PList [])]),
      (''metadata'', PDict []),
      (''created_at'', PDatetime (env_utcnow e 0)),
      (''updated_at'', PDatetime (env_utcnow e 1))]"

definition initial_version_metadata :: "env \<Rightarrow> string \<Rightarrow> string \<Rightarrow> version_row" where
  "initial_version_metadata e project_id mongo_id =
     \<lparr>v_id = env_uuid4 e, v_project_id = project_id, v_version = 1, v_mongo_id = mongo_id,
      v_name = ''Initial Version'',
      v_description = Some ''Automatically created initial version'', v_is_latest = True,
      v_metadata = PDict [], v_created_at = env_utcnow e 2\<rparr>"

definition create_initial_dictionary ::
  "state \<Rightarrow> env \<Rightarrow> string \<Rightarrow> string \<Rightarrow> string option \<times> state" where
  "create_initial_dictionary st e project_id user_id =
     (if \<not> mongo_available st then (None, st)
      else
        let mongo_id = env_object_id e;
            st1 = insert_one st mongo_id (initial_dictionary_doc e project_id);
            st2 = insert_version st1 (initial_version_metadata e project_id mongo_id)
        in (Some mongo_id, st2))"

definition new_project :: "generated \<Rightarrow> string \<Rightarrow> CreateProjectRequest \<Rightarrow> project_row" where
  "new_project g user_id project_data =
     \<lparr>p_id = g_id g, p_owner_id = user_id, p_name = strip (cp_name project_data),
      p_description = (case cp_description project_data of
                         None \<Rightarrow> None
                       | Some d \<Rightarrow> if d \<noteq> [] then Some (strip d) else None),
      p_created_at = g_created_at g, p_updated_at = g_updated_at g\<rparr>"

definition create_project_try ::
  "state \<Rightarrow> generated \<Rightarrow> env \<Rightarrow> string \<Rightarrow> CreateProjectRequest \<Rightarrow> (exn + pyval) \<times> state" where
  "create_project_try st g e user_id project_data =
     (let created_project = new_project g user_id project_data;
          st1 = st\<lparr>projects := projects st @ [created_project]\<rparr>;
          created = create_initial_dictionary st1 e (p_id created_project) user_id
      in (Inr (ProjectDetailResponse created_project), snd created))"

definition create_project ::
  "state \<Rightarrow> generated \<Rightarrow> env \<Rightarrow> bool \<Rightarrow> string \<Rightarrow> CreateProjectRequest
     \<Rightarrow> (exn + pyval) \<times> state" where
  "create_project st g e debug user_id project_data =
     project_exceptions debug ''Failed to create project''
       (create_project_try st g e user_id project_data)"

subsection \<open>update_project\<close>

definition project_update :: "env \<Rightarrow> UpdateProjectRequest \<Rightarrow> project_row \<Rightarrow> project_row" where
  "project_update e project_data p =
     (let p1 = (case up_name project_data of None \<Rightarrow> p | Some n \<Rightarrow> p\<lparr>p_name := strip n\<rparr>);
          p2 = (case up_description project_data of
                  None \<Rightarrow> p1
                | Some d \<Rightarrow> p1\<lparr>p_description := (if d \<noteq> [] then Some (strip d) else None)\<rparr>)
      in p2\<lparr>p_updated_at := Some (env_utcnow e 0)\<rparr>)"

definition update_project_try ::
  "state \<Rightarrow> env \<Rightarrow> string \<Rightarrow> string \<Rightarrow> UpdateProjectRequest \<Rightarrow> (exn + pyval) \<times> state" where
  "update_project_try st e user_id project_id project_data =
     (case single (owned_project st project_id user_id) of
        Inl ex \<Rightarrow> (Inl ex, st)
      | Inr None \<Rightarrow> (Inl (HTTPException 404 ''Project not found''), st)
      | Inr (Some existing) \<Rightarrow>
          if up_name project_data = None \<and> up_description project_data = None
          then (Inl (HTTPException 400 ''No fields to update''), st)
          else
            let st1 = st\<lparr>projects :=
                           map (\<lambda>p. if p_id p = project_id then project_update e project_data p
                                    else p)
                               (projects st)\<rparr>
            in (case filter (\<lambda>p. p_id p = project_id) (projects st1) of
                  [] \<Rightarrow> (Inl (HTTPException 500 ''Failed to update project''), st1)
                | updated_project # _ \<Rightarrow> (Inr (ProjectDetailResponse updated_project), st1)))"

definition update_project ::
  "state \<Rightarrow> env \<Rightarrow> bool \<Rightarrow> string \<Rightarrow> string \<Rightarrow> UpdateProjectRequest
     \<Rightarrow> (exn + pyval) \<times> state" where
  "update_project st e debug user_id project_id project_data =
     project_exceptions debug ''Failed to update project''
       (update_project_try st e user_id project_id project_data)"

subsection \<open>delete_project\<close>

definition delete_many :: "state \<Rightarrow> string list \<Rightarrow> state" where
  "delete_many st oids =
     st\<lparr>dictionaries := filter (\<lambda>kv. fst kv \<notin> set oids) (dictionaries st)\<rparr>"

text \<open>Modelled from the spec: the declaration of the relational tables is not part of the
  sources. Deleting a project cascades to its versions (``deleted explicitly (cascades
  to its versions)''; the endpoint's comment says the same), so the delete on \<open>projects\<close>
  also removes the rows of \<open>dictionary_versions\<close> of that project.\<close>

definition delete_project_rows :: "state \<Rightarrow> string \<Rightarrow> state" where
  "delete_project_rows st project_id =
     st\<lparr>projects := filter (\<lambda>p. p_id p \<noteq> project_id) (projects st),
        dictionary_versions :=
          filter (\<lambda>r. v_project_id r \<noteq> project_id) (dictionary_versions st)\<rparr>"

text \<open>The documents are deleted through \<open>mongodb.dictionaries\<close> without a test of the
  handle: with versions to delete and no document store this raises \<open>AttributeError\<close>,
  and the project stays.\<close>

definition delete_project_try :: "state \<Rightarrow> string \<Rightarrow> string \<Rightarrow> (exn + pyval) \<times> state" where
  "delete_project_try st user_id project_id =
     (case single (owned_project st project_id user_id) of
        Inl ex \<Rightarrow> (Inl ex, st)
      | Inr None \<Rightarrow> (Inl (HTTPException 404 ''Project not found''), st)
      | Inr (Some existing) \<Rightarrow>
          let mongo_ids_to_delete = map v_mongo_id (project_versions st project_id)
          in
          if mongo_ids_to_delete \<noteq> [] \<and> \<not> mongo_available st
          then (Inl (no_attribute PNone ''dictionaries''), st)
          else
            let st1 = (if mongo_ids_to_delete \<noteq> [] then delete_many st mongo_ids_to_delete
                       else st);
                deleted = filter (\<lambda>p. p_id p = project_id) (projects st1);
                st2 = delete_project_rows st1 project_id
            in if deleted = []
               then (Inl (HTTPException 500 ''Failed to delete project from Supabase''), st2)
               else (Inr (PDict [(''status'', PStr ''success''),
                                 (''message'',
                                  PStr ''Project and all associated data deleted successfully'')]),
                     st2))"

definition delete_project :: "state \<Rightarrow> bool \<Rightarrow> string \<Rightarrow> string \<Rightarrow> (exn + pyval) \<times> state" where
  "delete_project st debug user_id project_id =
     project_exceptions debug ''Failed to delete project''
       (delete_project_try st user_id project_id)"

section \<open>Requests as operations on the two stores\<close>

text \<open>
  A request is one call of an endpoint that reads or writes \<open>dictionary_versions\<close> or
  the document store, or that writes \<open>projects\<close>. No other endpoint calls them:
  \<open>list_projects\<close> and \<open>get_project\<close> select from \<open>projects\<close>, the endpoints of
  auth.py call the identity provider and select from \<open>users\<close>, and those of columns.py,
  erd.py and import_export.py return fixed answers.
\<close>

datatype operation =
    ListVersions string string
  | CreateVersion env string string CreateVersionRequest
  | GetLatestVersion string string
  | GetSpecificVersion string string int
  | UpdateVersion env string string int UpdateVersionRequest
  | DeleteVersion string string int
  | ListTables string string int "string option"
  | CreateTable env string string int TableRequest
  | UpdateTable env string string int string string TableRequest
  | DeleteTable env string string int string string
  | DeleteColumn env string string int string string string
  | GetTable string string int string string
  | CreateProject generated env bool string CreateProjectRequest
  | UpdateProject env bool string string UpdateProjectRequest
  | DeleteProject bool string string

fun run :: "state \<Rightarrow> operation \<Rightarrow> (exn + pyval) \<times> state" where
  "run st (ListVersions u p) = list_versions st u p"
| "run st (CreateVersion e u p r) = create_version st e u p r"
| "run st (GetLatestVersion u p) = get_latest_version st u p"
| "run st (GetSpecificVersion u p v) = get_specific_version st u p v"
| "run st (UpdateVersion e u p v r) = update_version st e u p v r"
| "run st (DeleteVersion u p v) = delete_version st u p v"
| "run st (ListTables u p v s) = list_tables st u p v s"
| "run st (CreateTable e u p v r) = create_table st e u p v r"
| "run st (UpdateTable e u p v t s r) = update_table st e u p v t s r"
| "run st (DeleteTable e u p v t s) = delete_table st e u p v t s"
| "run st (DeleteColumn e u p v t c s) = delete_column st e u p v t c s"
| "run st (GetTable u p v t s) = get_table st u p v t s"
| "run st (CreateProject g e d u r) = create_project st g e d u r"
| "run st (UpdateProject e d u p r) = update_project st e d u p r"
| "run st (DeleteProject d u p) = delete_project st d u p"

section \<open>What is observed of a project's versions\<close>

definition is_success :: "exn + pyval \<Rightarrow> bool" where
  "is_success r =
     (case r of
        Inr (PDict d) \<Rightarrow> map_of d ''status'' = Some (PStr ''success'')
      | _ \<Rightarrow> False)"

definition version_numbers :: "state \<Rightarrow> string \<Rightarrow> int list" where
  "version_numbers st project_id = map v_version (project_versions st project_id)"

definition latest_versions :: "state \<Rightarrow> string \<Rightarrow> int list" where
  "latest_versions st project_id =
     map v_version (filter v_is_latest (project_versions st project_id))"

definition versions_unique :: "state \<Rightarrow> string \<Rightarrow> bool" where
  "versions_unique st project_id = distinct (version_numbers st project_id)"

definition one_latest :: "state \<Rightarrow> string \<Rightarrow> bool" where
  "one_latest st project_id =
     (project_versions st project_id = [] \<or> length (latest_versions st project_id) = 1)"



text \<open>What identifies a row and its place in the lineage: id, project, number, flag.\<close>

definition row_keys :: "state \<Rightarrow> (string \<times> string \<times> int \<times> bool) list" where
  "row_keys st =
     map (\<lambda>r. (v_id r, v_project_id r, v_version r, v_is_latest r)) (dictionary_versions st)"

definition promote_row :: "int \<Rightarrow> version_row \<Rightarrow> version_row" where
  "promote_row h r = (if v_version r = h then r\<lparr>v_is_latest := True\<rparr> else r)"

text \<open>The stored document of a version, and one field of it.\<close>

definition stored_field :: "state \<Rightarrow> string \<Rightarrow> string \<Rightarrow> pyval" where
  "stored_field st oid k =
     (case map_of (dictionaries st) oid of None \<Rightarrow> PNone | Some d \<Rightarrow> dict_get d k PNone)"

text \<open>The derived flag of a stored column agrees with its key: \<open>isPK\<close> is set only on a
  column whose \<open>key\<close> is \<open>"PK"\<close>, as \<open>Column.isPK\<close> computes it.\<close>

definition derived_flags_ok :: "pydict list \<Rightarrow> bool" where
  "derived_flags_ok cols =
     list_all (\<lambda>c. truthy (dict_get c ''isPK'' PNone) \<longrightarrow> dict_get c ''key'' PNone = PStr ''PK'') cols"

definition key_is_PK :: "pydict \<Rightarrow> bool" where
  "key_is_PK c = (dict_get c ''key'' PNone = PStr ''PK'')"

definition first_index :: "('a \<Rightarrow> bool) \<Rightarrow> 'a list \<Rightarrow> nat \<Rightarrow> bool" where
  "first_index P xs i = (i < length xs \<and> P (xs ! i) \<and> list_all (\<lambda>x. \<not> P x) (take i xs))"

text \<open>The table list of a stored document.\<close>

definition stored_tables :: "state \<Rightarrow> string \<Rightarrow> pyval" where
  "stored_tables st oid =
     (case stored_field st oid ''schemas'' of
        PDict schemas_data \<Rightarrow> dict_get schemas_data ''tables'' PNone
      | _ \<Rightarrow> PNone)"

text \<open>The tests the loops of \<open>delete_table\<close> and \<open>delete_column\<close> make on a column or a
  relationship, by name: the column is the one asked for; the relationship passes the
  filter and is kept.\<close>

definition has_name :: "string \<Rightarrow> pydict \<Rightarrow> bool" where
  "has_name n c = (dict_get c ''name'' PNone = PStr n)"

definition keeps_table_relationship :: "string \<Rightarrow> pydict \<Rightarrow> bool" where
  "keeps_table_relationship table_name rel =
     (dict_get rel ''source_table'' PNone \<noteq> PStr table_name
      \<and> dict_get rel ''target_table'' PNone \<noteq> PStr table_name)"

definition keeps_column_relationship :: "string \<Rightarrow> string \<Rightarrow> pydict \<Rightarrow> bool" where
  "keeps_column_relationship table_name column_name rel =
     (\<not> ((dict_get rel ''source_table'' PNone = PStr table_name
           \<and> dict_get rel ''source_column'' PNone = PStr column_name)
          \<or> (dict_get rel ''target_table'' PNone = PStr table_name
              \<and> dict_get rel ''target_column'' PNone = PStr column_name)))"

text \<open>The table list with column \<open>i\<close> taken out of table \<open>j\<close>, and the fields that
  \<open>delete_table\<close> and \<open>delete_column\<close> pass to \<open>$set\<close>.\<close>

definition without_column :: "pydict list \<Rightarrow> nat \<Rightarrow> nat \<Rightarrow> pydict list \<Rightarrow> pyval list" where
  "without_column ts j i cs =
     (map PDict ts)
       [j := PDict (AList.update ''columns'' (PList (map PDict (take i cs @ drop (Suc i) cs)))
                      (ts ! j))]"

definition deletion_sets ::
  "env \<Rightarrow> pydict \<Rightarrow> pyval list \<Rightarrow> pydict list \<Rightarrow> pydict" where
  "deletion_sets e schemas_data tables kept =
     [(''schemas'', PDict (AList.update ''tables'' (PList tables) schemas_data)),
      (''relationships'', PList (map PDict kept)),
      (''updated_at'', PDatetime (env_utcnow e 0))]"

text \<open>The message of the \<open>AttributeError\<close> that \<open>.get\<close> on a string raises.\<close>

definition str_has_no_get :: string where
  "str_has_no_get = quote ''str'' @ '' object has no attribute '' @ quote ''get''"

section \<open>A sample store\<close>

text \<open>Project \<open>p1\<close> of user \<open>alice\<close> with versions 1 and 2, version 2 the latest. Each
  document holds the tables \<open>orders\<close> (columns \<open>id\<close>, the primary key, and \<open>total\<close>)
  and \<open>items\<close> in the shape \<open>create_version\<close> writes, and the relationship from
  \<open>items.order_id\<close> to \<open>orders.id\<close> as the \<open>Relationship\<close> model dumps it.\<close>

definition orders_table :: Table where
  "orders_table =
     (Table_init ''orders'')
       \<lparr>t_columns :=
          [(Column_init ''id'' ''bigint'')\<lparr>c_key := Some PRIMARY, c_nullable := False\<rparr>,
           Column_init ''total'' ''numeric'']\<rparr>"

definition items_table :: Table where
  "items_table =
     (Table_init ''items'')
       \<lparr>t_columns :=
          [(Column_init ''id'' ''bigint'')\<lparr>c_key := Some PRIMARY, c_nullable := False\<rparr>,
           (Column_init ''order_id'' ''bigint'')\<lparr>c_key := Some FOREIGN\<rparr>]\<rparr>"

definition sample_schemas :: "Schema list" where
  "sample_schemas = [(Schema_init ''public'')\<lparr>s_tables := [orders_table, items_table]\<rparr>]"

definition sample_relationship :: Relationship where
  "sample_relationship = Relationship_init ''r1'' ''items'' ''order_id'' ''orders'' ''id''"

definition sample_doc :: "int \<Rightarrow> pydict" where
  "sample_doc n =
     [(''projectId'', PStr ''p1''), (''version'', PInt n), (''name'', PStr ''draft''),
      (''description'', PNone), (''schemas'', schemas_to_dict sample_schemas),
      (''relationships'', PList [PDict (Relationship_model_dump sample_relationship)]),
      (''erd'', empty_erd), (''metadata'', PDict []),
      (''created_at'', PDatetime ''2024-01-01T00:00:00''),
      (''updated_at'', PDatetime ''2024-01-01T00:00:00'')]"

definition sample_row :: "int \<Rightarrow> string \<Rightarrow> string \<Rightarrow> bool \<Rightarrow> version_row" where
  "sample_row n i m l =
     \<lparr>v_id = i, v_project_id = ''p1'', v_version = n, v_mongo_id = m, v_name = ''draft'',
      v_description = None, v_is_latest = l, v_metadata = PDict [],
      v_created_at = ''2024-01-01T00:00:00''\<rparr>"

definition sample_state :: state where
  "sample_state =
     \<lparr>projects = [\<lparr>p_id = ''p1'', p_owner_id = ''alice'', p_name = ''shop'',
                   p_description = None, p_created_at = ''2024-01-01T00:00:00'',
                   p_updated_at = None\<rparr>],
      dictionary_versions = [sample_row 1 ''u1'' ''a1'' False, sample_row 2 ''u2'' ''a2'' True],
      mongo_available = True,
      dictionaries = [(''a1'', sample_doc 1), (''a2'', sample_doc 2)]\<rparr>"

definition sample_env :: env where
  "sample_env =
     \<lparr>env_object_id = ''a3'', env_uuid4 = ''u3'', env_utcnow = (\<lambda>k. ''2024-02-01T00:00:00'')\<rparr>"

definition plain_request :: CreateVersionRequest where
  "plain_request =
     \<lparr>cv_name = ''next'', cv_description = None, cv_base_version = None, cv_schemas = []\<rparr>"

text \<open>The stored form of the sample tables and columns.\<close>

definition sample_tables :: "pydict list" where
  "sample_tables = [Table_model_dump orders_table, Table_model_dump items_table]"

definition sample_schemas_data :: pydict where
  "sample_schemas_data =
     [(''tables'', PList (map PDict sample_tables)), (''relationships'', PList [])]"

definition orders_columns :: "pydict list" where
  "orders_columns = map Column_model_dump (t_columns orders_table)"

definition items_columns :: "pydict list" where
  "items_columns = map Column_model_dump (t_columns items_table)"

text \<open>Variations of the sample store and requests on it: the project with version 1
  alone; the store that lost the document of version 2; a plain \<open>create_version\<close> and
  one that names version 1 as its base; the creation of a second project.\<close>

definition lone_state :: state where
  "lone_state =
     sample_state\<lparr>dictionary_versions := [sample_row 1 ''u1'' ''a1'' True],
                  dictionaries := [(''a1'', sample_doc 1)]\<rparr>"

definition orphan_state :: state where
  "orphan_state = sample_state\<lparr>dictionaries := [(''a1'', sample_doc 1)]\<rparr>"

definition latest_without_document :: pyval where
  "latest_without_document =
     success_response
       (PDict [(''version'', version_row_dump (sample_row 2 ''u2'' ''a2'' True)),
               (''dictionary'', PNone)])
       ''Latest version retrieved successfully''"


definition fork_request :: CreateVersionRequest where
  "fork_request =
     \<lparr>cv_name = ''fork'', cv_description = None, cv_base_version = Some 1, cv_schemas = []\<rparr>"

definition forked_state :: state where
  "forked_state = snd (create_version sample_state sample_env ''alice'' ''p1'' fork_request)"



text \<open>The sample store with three relationships in version 1, each a dict with the keys
  \<open>source_table\<close>, \<open>source_column\<close>, \<open>target_table\<close>, \<open>target_column\<close>: from
  \<open>items.order_id\<close> and from \<open>items.id\<close> to \<open>orders.id\<close>, and from \<open>orders.total\<close> to
  \<open>orders.id\<close>.\<close>

definition keyed_relationship ::
  "string \<Rightarrow> string \<Rightarrow> string \<Rightarrow> string \<Rightarrow> string \<Rightarrow> pydict" where
  "keyed_relationship i source_table source_column target_table target_column =
     [(''id'', PStr i), (''source_table'', PStr source_table),
      (''source_column'', PStr source_column), (''target_table'', PStr target_table),
      (''target_column'', PStr target_column)]"

definition sample_links :: "pydict list" where
  "sample_links =
     [keyed_relationship ''r1'' ''items'' ''order_id'' ''orders'' ''id'',
      keyed_relationship ''r2'' ''items'' ''id'' ''orders'' ''id'',
      keyed_relationship ''r3'' ''orders'' ''total'' ''orders'' ''id'']"

definition related_doc :: pydict where
  "related_doc = AList.update ''relationships'' (PList (map PDict sample_links)) (sample_doc 1)"

definition related_state :: state where
  "related_state =
     sample_state\<lparr>dictionaries := [(''a1'', related_doc), (''a2'', sample_doc 2)]\<rparr>"

section \<open>Properties\<close>

subsection \<open>Version numbers\<close>

lemma handle_exceptions_Inr [simp]: "handle_exceptions (Inr v, s) = (Inr v, s)"
  by (simp add: handle_exceptions_def)

lemma snd_handle_exceptions [simp]: "snd (handle_exceptions r) = snd r"
  by (cases r) (auto simp: handle_exceptions_def split: sum.splits exn.splits)

lemma is_success_success_response [simp]: "is_success (Inr (success_response d m))"
  by (simp add: is_success_def success_response_def)

lemma is_success_error_response [simp]: "\<not> is_success (Inr (error_response m es c))"
  by (simp add: is_success_def error_response_def)

lemma is_success_Inl [simp]: "\<not> is_success (Inl ex)"
  by (simp add: is_success_def)

lemma is_success_handle:
  "is_success (fst (handle_exceptions r)) \<Longrightarrow> is_success (fst r)"
  by (cases r) (auto simp: handle_exceptions_def split: sum.splits exn.splits)

lemma is_success_handle_iff [simp]:
  "is_success (fst (handle_exceptions r)) = is_success (fst r)"
  by (cases r) (auto simp: handle_exceptions_def split: sum.splits exn.splits)

lemma sorted_last_Max:
  fixes xs :: "'a::linorder list"
  shows "sorted xs \<Longrightarrow> xs \<noteq> [] \<Longrightarrow> last xs = Max (set xs)"
proof (induction xs)
  case Nil
  then show ?case by simp
next
  case (Cons x xs)
  show ?case
  proof (cases "xs = []")
    case True
    then show ?thesis by simp
  next
    case False
    with Cons have "last xs = Max (set xs)" by simp
    moreover from Cons.prems False have "x \<le> Max (set xs)"
      by (metis List.finite_set Max_ge_iff last_in_set set_empty sorted_simps(2) calculation)
    ultimately show ?thesis using False by (simp add: max_def)
  qed
qed

lemma take1_rev:
  "xs \<noteq> [] \<Longrightarrow> take (Suc 0) (rev xs) = [last xs]"
  by (cases xs rule: rev_cases) auto

lemma take1_rev_sort:
  fixes vs :: "int list"
  shows "take (Suc 0) (rev (sort vs)) = (if vs = [] then [] else [Max (set vs)])"
proof (cases "vs = []")
  case True
  then show ?thesis by simp
next
  case False
  then have ne: "sort vs \<noteq> []" by (metis set_empty set_sort)
  have "last (sort vs) = Max (set vs)"
    using sorted_last_Max[of "sort vs"] ne by simp
  then show ?thesis using False ne by (simp add: take1_rev)
qed

lemma next_version_of_eq:
  "next_version_of st p =
     (if version_numbers st p = [] then 1 else Max (set (version_numbers st p)) + 1)"
  unfolding next_version_of_def version_numbers_def
  using take1_rev_sort[of "map v_version (project_versions st p)"]
  by (auto split: list.splits)

lemma create_version_try_cases:
  "(\<exists>ex. create_version_try st e u p r = (Inl ex, st))
   \<or> (\<exists>resp doc.
        create_version_try st e u p r
          = (Inr (success_response resp (''Version '' @ str_int (next_version_of st p) @ '' created successfully'')),
             insert_version (clear_latest (insert_one st (env_object_id e) doc) p)
               (version_metadata e p (next_version_of st p) (env_object_id e) r)))"
  by (auto simp add: create_version_try_def Let_def split: option.splits sum.splits)

lemma project_versions_insert_one [simp]:
  "project_versions (insert_one st oid doc) p = project_versions st p"
  by (simp add: project_versions_def insert_one_def)

lemma project_versions_delete_one [simp]:
  "project_versions (delete_one st oid) p = project_versions st p"
  by (simp add: project_versions_def delete_one_def)

lemma filter_project_clear:
  "filter (\<lambda>r. v_project_id r = p)
          (map (\<lambda>r. if v_project_id r = q then r\<lparr>v_is_latest := False\<rparr> else r) xs)
     = (if p = q then map (\<lambda>r. r\<lparr>v_is_latest := False\<rparr>) (filter (\<lambda>r. v_project_id r = p) xs)
        else filter (\<lambda>r. v_project_id r = p) xs)"
  by (induction xs) auto

lemma project_versions_clear_latest:
  "project_versions (clear_latest st q) p =
     (if p = q then map (\<lambda>r. r\<lparr>v_is_latest := False\<rparr>) (project_versions st p)
      else project_versions st p)"
  by (simp add: project_versions_def clear_latest_def filter_project_clear)

lemma project_versions_insert_version:
  "project_versions (insert_version st row) p =
     project_versions st p @ (if v_project_id row = p then [row] else [])"
  by (simp add: project_versions_def insert_version_def)

lemma Max_less_succ:
  fixes vs :: "int list"
  assumes "v \<in> set vs"
  shows "v < Max (set vs) + 1"
proof -
  have "v \<le> Max (set vs)" using assms by simp
  then show ?thesis by arith
qed

lemma existing_below_next:
  "v \<in> set (version_numbers st p) \<Longrightarrow> v < next_version_of st p"
  by (auto simp: next_version_of_eq Max_less_succ)

text \<open>
  Claim C3. A successful \<open>create_version\<close> gives the new version the number
  (maximum existing number of the project) + 1, and 1 when the project has no version.
  The number lies above every existing one, so the numbers of a project stay unique.
\<close>

theorem create_version_numbering:
  assumes "is_success (fst (create_version st e u p r))"
  shows "version_numbers (snd (create_version st e u p r)) p
           = version_numbers st p
             @ [if version_numbers st p = [] then 1 else Max (set (version_numbers st p)) + 1]
         \<and> (\<forall>v \<in> set (version_numbers st p).
               v < (if version_numbers st p = [] then 1 else Max (set (version_numbers st p)) + 1))
         \<and> (versions_unique st p \<longrightarrow> versions_unique (snd (create_version st e u p r)) p)"
proof -
  from assms have ok: "is_success (fst (create_version_try st e u p r))"
    by (simp add: create_version_def)
  then obtain resp doc where run:
    "create_version_try st e u p r
       = (Inr resp,
          insert_version (clear_latest (insert_one st (env_object_id e) doc) p)
            (version_metadata e p (next_version_of st p) (env_object_id e) r))"
    using create_version_try_cases[of st e u p r] by auto
  have nums: "version_numbers (snd (create_version st e u p r)) p
                = version_numbers st p @ [next_version_of st p]"
    by (simp add: create_version_def run version_numbers_def project_versions_insert_version
        project_versions_clear_latest version_metadata_def comp_def)
  have below: "\<forall>v \<in> set (version_numbers st p). v < next_version_of st p"
    using existing_below_next by blast
  have uniq: "versions_unique st p \<longrightarrow> versions_unique (snd (create_version st e u p r)) p"
    using below by (auto simp: versions_unique_def nums)
  show ?thesis
    using nums below uniq by (simp add: next_version_of_eq)
qed

subsection \<open>Requests that leave the version index alone\<close>

lemma update_one_rows [simp]:
  "dictionary_versions (snd (update_one st oid sets)) = dictionary_versions st"
  by (simp add: update_one_def split: option.splits)




lemma commit_rows [simp]:
  "dictionary_versions (snd (commit st m f plan)) = dictionary_versions st"
  by (simp add: commit_def Let_def split: sum.splits prod.splits)







subsection \<open>Observations depend on the row keys only\<close>






lemma same_rows_keys:
  "dictionary_versions st' = dictionary_versions st \<Longrightarrow> row_keys st' = row_keys st"
  by (simp add: row_keys_def)

lemma supabase_updates_keys [simp]:
  "v_id (supabase_updates ud r) = v_id r"
  "v_project_id (supabase_updates ud r) = v_project_id r"
  "v_version (supabase_updates ud r) = v_version r"
  "v_is_latest (supabase_updates ud r) = v_is_latest r"
  by (simp_all add: supabase_updates_def Let_def)


subsection \<open>delete_version on the rows of a project\<close>

lemma filter_project_promote:
  "filter (\<lambda>r. v_project_id r = p)
          (map (\<lambda>r. if v_project_id r = q \<and> v_version r = h then r\<lparr>v_is_latest := True\<rparr> else r) xs)
     = (if p = q then map (promote_row h) (filter (\<lambda>r. v_project_id r = p) xs)
        else filter (\<lambda>r. v_project_id r = p) xs)"
  by (induction xs) (auto simp: promote_row_def)

lemma project_versions_promote:
  "project_versions (promote st q h) p =
     (if p = q then map (promote_row h) (project_versions st p) else project_versions st p)"
  by (simp add: project_versions_def promote_def filter_project_promote)

lemma project_versions_delete_row:
  "project_versions (delete_row st q v) p =
     (if p = q then filter (\<lambda>r. v_version r \<noteq> v) (project_versions st p)
      else project_versions st p)"
  by (auto simp: project_versions_def delete_row_def intro: filter_cong)

lemma delete_version_try_rejections:
  assumes "\<not> verify_project_access st p u \<or> project_versions st p = []
           \<or> length (project_versions st p) = 1
           \<or> find (\<lambda>r. v_version r = v) (project_versions st p) = None"
  shows "snd (delete_version_try st u p v) = st"
    and "\<not> is_success (fst (delete_version_try st u p v))"
  using assms by (auto simp: delete_version_try_def Let_def)

lemma delete_version_try_done:
  assumes "verify_project_access st p u" and "project_versions st p \<noteq> []"
    and "length (project_versions st p) \<noteq> 1"
    and "find (\<lambda>r. v_version r = v) (project_versions st p) = Some d"
  shows "is_success (fst (delete_version_try st u p v))"
    and "project_versions (snd (delete_version_try st u p v)) q
          = (if q = p then
               filter (\<lambda>r. v_version r \<noteq> v)
                 (if v_is_latest d then
                    (case sorted_desc (filter (\<lambda>r. v_version r \<noteq> v) (project_versions st p)) of
                       [] \<Rightarrow> project_versions st p
                     | h # _ \<Rightarrow> map (promote_row (v_version h)) (project_versions st p))
                  else project_versions st p)
             else project_versions st q)"
  using assms
  by (auto simp: delete_version_try_def Let_def project_versions_delete_row
      project_versions_promote split: list.splits)

lemma sorted_desc_head:
  assumes "rows \<noteq> []"
  shows "\<exists>h rest. sorted_desc rows = h # rest \<and> h \<in> set rows
           \<and> v_version h = Max (v_version ` set rows)"
proof -
  let ?ys = "sort_key v_version (rev rows)"
  have ne: "?ys \<noteq> []" using assms by (metis set_empty set_rev set_sort)
  have desc: "sorted_desc rows = last ?ys # rev (butlast ?ys)"
    unfolding sorted_desc_def using ne by (cases ?ys rule: rev_cases) auto
  have mem: "last ?ys \<in> set rows" using ne last_in_set[of ?ys] by simp
  have "v_version (last ?ys) = last (map v_version ?ys)" using ne by (simp add: last_map)
  also have "\<dots> = Max (set (map v_version ?ys))"
    using sorted_last_Max[of "map v_version ?ys"] ne by (simp add: sorted_sort_key)
  also have "\<dots> = Max (v_version ` set rows)" by simp
  finally show ?thesis using desc mem by blast
qed

lemma distinct_filter_eq:
  "distinct ys \<Longrightarrow> h \<in> set ys \<Longrightarrow> filter (\<lambda>x. x = h) ys = [h]"
  by (induction ys) (auto simp: filter_empty_conv)

lemma distinct_versions_same_row:
  assumes "distinct (map v_version xs)" and "r \<in> set xs" and "d \<in> set xs"
    and "v_version r = v_version d"
  shows "r = d"
  using assms by (meson distinct_map inj_on_def)

lemma find_version_row:
  assumes "find (\<lambda>r. v_version r = v) xs = Some d"
  shows "d \<in> set xs" and "v_version d = v"
  using assms by (auto simp: find_Some_iff)

lemma find_version_None:
  "(find (\<lambda>r. v_version r = v) xs = None) = (v \<notin> set (map v_version xs))"
  by (auto simp: find_None_iff)

text \<open>Deleting the latest version \<open>v\<close> after promoting \<open>h\<close>.\<close>

lemma latest_after_promotion:
  assumes dist: "distinct (map v_version xs)"
    and one: "map v_version (filter v_is_latest xs) = [v]"
    and h: "h \<in> set (map v_version xs)" and hv: "h \<noteq> v"
  shows "map v_version
           (filter v_is_latest (filter (\<lambda>r. v_version r \<noteq> v) (map (promote_row h) xs)))
         = [h]"
proof -
  have only: "\<And>r. r \<in> set xs \<Longrightarrow> v_is_latest r \<Longrightarrow> v_version r = v"
  proof -
    fix r assume "r \<in> set xs" "v_is_latest r"
    then have "v_version r \<in> set (map v_version (filter v_is_latest xs))" by auto
    then show "v_version r = v" using one by simp
  qed
  have "filter v_is_latest (filter (\<lambda>r. v_version r \<noteq> v) (map (promote_row h) xs))
          = map (promote_row h) (filter (\<lambda>r. v_version r = h) xs)"
    using only hv
    by (auto simp: filter_map comp_def promote_row_def intro!: arg_cong[where f="map (promote_row h)"] filter_cong)
  then have "map v_version
               (filter v_is_latest (filter (\<lambda>r. v_version r \<noteq> v) (map (promote_row h) xs)))
             = map v_version (filter (\<lambda>r. v_version r = h) xs)"
    by (simp add: comp_def promote_row_def cong: map_cong)
  also have "\<dots> = filter (\<lambda>x. x = h) (map v_version xs)"
    by (simp add: filter_map comp_def)
  also have "\<dots> = [h]" using dist h by (rule distinct_filter_eq)
  finally show ?thesis .
qed

text \<open>Deleting a version that is not among the latest.\<close>

lemma latest_after_plain_delete:
  assumes "v \<notin> set (map v_version (filter v_is_latest xs))"
  shows "map v_version (filter v_is_latest (filter (\<lambda>r. v_version r \<noteq> v) xs))
         = map v_version (filter v_is_latest xs)"
proof -
  have "filter v_is_latest (filter (\<lambda>r. v_version r \<noteq> v) xs) = filter v_is_latest xs"
    using assms by (auto intro: filter_cong)
  then show ?thesis by simp
qed

lemma others_nonempty:
  assumes "distinct (map v_version xs)" and "xs \<noteq> []" and "length xs \<noteq> 1"
  shows "filter (\<lambda>r. v_version r \<noteq> v) xs \<noteq> []"
proof
  assume "filter (\<lambda>r. v_version r \<noteq> v) xs = []"
  then have all: "\<forall>r \<in> set xs. v_version r = v" by (auto simp: filter_empty_conv)
  from assms(2,3) obtain a b rest where xs: "xs = a # b # rest"
    by (cases xs; cases "tl xs") auto
  with all have "v_version a = v_version b" by simp
  with assms(1) xs show False by simp
qed

lemma handle_exceptions_ValidationError [simp]:
  "handle_exceptions (Inl (ValidationError m), s) = (Inr (error_response m [] 500), s)"
  by (simp add: handle_exceptions_def)

lemma version_numbers_empty [simp]:
  "(version_numbers st p = []) = (project_versions st p = [])"
  by (simp add: version_numbers_def)

lemma promote_row_version [simp]: "v_version (promote_row h r) = v_version r"
  by (simp add: promote_row_def)

lemma filter_version_promote:
  "filter (\<lambda>r. v_version r \<noteq> v) (map (promote_row h) xs)
     = map (promote_row h) (filter (\<lambda>r. v_version r \<noteq> v) xs)"
  by (simp add: filter_map comp_def)

text \<open>
  Claim C5. For a caller who owns the project, \<open>delete_version\<close> on a project with
  exactly one version raises \<open>ValidationError\<close> and changes nothing; and whatever
  \<open>delete_version\<close> is asked, a project that has a version still has one afterwards.
\<close>

theorem delete_only_version_rejected:
  assumes "versions_unique st p"
  shows "(verify_project_access st p u \<and> length (version_numbers st p) = 1
            \<longrightarrow> delete_version_try st u p v
                  = (Inl (ValidationError ''Cannot delete the only version''), st)
                \<and> delete_version st u p v
                  = (Inr (error_response ''Cannot delete the only version'' [] 500), st))
         \<and> (version_numbers st p \<noteq> []
              \<longrightarrow> version_numbers (snd (delete_version st u p v)) p \<noteq> [])"
proof (intro conjI impI)
  assume a: "verify_project_access st p u \<and> length (version_numbers st p) = 1"
  then have one: "length (project_versions st p) = 1" by (simp add: version_numbers_def)
  then have ne: "project_versions st p \<noteq> []" by auto
  show rejected: "delete_version_try st u p v
               = (Inl (ValidationError ''Cannot delete the only version''), st)"
    using a one ne by (simp add: delete_version_try_def Let_def)
  show "delete_version st u p v
          = (Inr (error_response ''Cannot delete the only version'' [] 500), st)"
    by (simp add: delete_version_def rejected)
next
  assume ne: "version_numbers st p \<noteq> []"
  let ?xs = "project_versions st p"
  show "version_numbers (snd (delete_version st u p v)) p \<noteq> []"
  proof (cases "verify_project_access st p u \<and> length ?xs \<noteq> 1
                \<and> find (\<lambda>r. v_version r = v) ?xs \<noteq> None")
    case False
    then have "snd (delete_version_try st u p v) = st"
      using delete_version_try_rejections(1)[of st p u v] by blast
    then show ?thesis using ne by (simp add: delete_version_def)
  next
    case True
    then obtain d where d: "find (\<lambda>r. v_version r = v) ?xs = Some d" by auto
    have xs: "?xs \<noteq> []" using ne by simp
    have rows: "project_versions (snd (delete_version_try st u p v)) p
                  = filter (\<lambda>r. v_version r \<noteq> v)
                      (if v_is_latest d then
                         (case sorted_desc (filter (\<lambda>r. v_version r \<noteq> v) ?xs) of
                            [] \<Rightarrow> ?xs
                          | h # _ \<Rightarrow> map (promote_row (v_version h)) ?xs)
                       else ?xs)"
      using delete_version_try_done(2)[of st p u v d p] True xs d by simp
    have others: "filter (\<lambda>r. v_version r \<noteq> v) ?xs \<noteq> []"
      using others_nonempty[of ?xs v] assms True xs
      by (simp add: versions_unique_def version_numbers_def)
    have promoted: "\<And>h. filter (\<lambda>r. v_version r \<noteq> v) (map (promote_row h) ?xs) \<noteq> []"
      using others by (simp add: filter_version_promote)
    have "project_versions (snd (delete_version_try st u p v)) p \<noteq> []"
      unfolding rows using others promoted by (auto split: list.splits)
    then show ?thesis by (simp add: delete_version_def)
  qed
qed

theorem delete_only_version_rejected_witness:
  "versions_unique lone_state ''p1''
   \<and> verify_project_access lone_state ''p1'' ''alice''
   \<and> length (version_numbers lone_state ''p1'') = 1
   \<and> delete_version lone_state ''alice'' ''p1'' 1
       = (Inr (error_response ''Cannot delete the only version'' [] 500), lone_state)
   \<and> version_numbers (snd (delete_version lone_state ''alice'' ''p1'' 1)) ''p1'' = [1]"
proof -
  have u: "versions_unique lone_state ''p1''"
    by (simp add: versions_unique_def version_numbers_def project_versions_def lone_state_def
        sample_state_def sample_row_def)
  have a: "verify_project_access lone_state ''p1'' ''alice''"
    by (simp add: verify_project_access_def lone_state_def sample_state_def)
  have n: "version_numbers lone_state ''p1'' = [1]"
    by (simp add: version_numbers_def project_versions_def lone_state_def
        sample_state_def sample_row_def)
  from delete_only_version_rejected[OF u, of "''alice''" 1] a n
  have r: "delete_version lone_state ''alice'' ''p1'' 1
             = (Inr (error_response ''Cannot delete the only version'' [] 500), lone_state)"
    by simp
  show ?thesis using u a n r by simp
qed

subsection \<open>The sample project\<close>

lemma sample_access [simp]: "verify_project_access sample_state ''p1'' ''alice''"
  by (simp add: verify_project_access_def sample_state_def)

lemma sample_mongo [simp]: "mongo_available sample_state"
  by (simp add: sample_state_def)

lemma sample_project_versions [simp]:
  "project_versions sample_state ''p1''
     = [sample_row 1 ''u1'' ''a1'' False, sample_row 2 ''u2'' ''a2'' True]"
  by (simp add: project_versions_def sample_state_def sample_row_def)

lemma sample_version_numbers [simp]: "version_numbers sample_state ''p1'' = [1, 2]"
  by (simp add: version_numbers_def sample_row_def)

lemma sample_latest_versions [simp]: "latest_versions sample_state ''p1'' = [2]"
  by (simp add: latest_versions_def sample_row_def)

lemma sample_versions_unique [simp]: "versions_unique sample_state ''p1''"
  by (simp add: versions_unique_def)

lemma sample_one_latest [simp]: "one_latest sample_state ''p1''"
  by (simp add: one_latest_def)

lemma plain_create_succeeds:
  "is_success (fst (create_version sample_state sample_env ''alice'' ''p1'' plain_request))"
  by (simp add: create_version_def create_version_try_def plain_request_def Let_def)

theorem create_version_numbering_witness:
  "is_success (fst (create_version sample_state sample_env ''alice'' ''p1'' plain_request))
   \<and> version_numbers
        (snd (create_version sample_state sample_env ''alice'' ''p1'' plain_request)) ''p1''
       = [1, 2, 3]
   \<and> versions_unique
        (snd (create_version sample_state sample_env ''alice'' ''p1'' plain_request)) ''p1''"
  using create_version_numbering[OF plain_create_succeeds] plain_create_succeeds
  by simp

lemma delete_version_effect:
  assumes access: "verify_project_access st p u"
    and uniq: "versions_unique st p" and one: "one_latest st p"
    and two: "2 \<le> length (version_numbers st p)"
    and mem: "v \<in> set (version_numbers st p)"
  shows "is_success (fst (delete_version st u p v))
         \<and> version_numbers (snd (delete_version st u p v)) p
             = filter (\<lambda>x. x \<noteq> v) (version_numbers st p)
         \<and> (latest_versions st p = [v]
              \<longrightarrow> latest_versions (snd (delete_version st u p v)) p
                    = [Max (set (version_numbers st p) - {v})])
         \<and> (latest_versions st p \<noteq> [v]
              \<longrightarrow> latest_versions (snd (delete_version st u p v)) p = latest_versions st p)"
proof -
  let ?xs = "project_versions st p"
  let ?others = "filter (\<lambda>r. v_version r \<noteq> v) ?xs"
  have dist: "distinct (map v_version ?xs)"
    using uniq by (simp add: versions_unique_def version_numbers_def)
  have xs: "?xs \<noteq> []" and len: "length ?xs \<noteq> 1"
    using two by (auto simp: version_numbers_def)
  from mem obtain d where d: "find (\<lambda>r. v_version r = v) ?xs = Some d"
    using find_version_None[of v ?xs] by (cases "find (\<lambda>r. v_version r = v) ?xs")
      (auto simp: version_numbers_def)
  have d_in: "d \<in> set ?xs" and d_v: "v_version d = v"
    using find_version_row[OF d] by simp_all
  have ok: "is_success (fst (delete_version st u p v))"
    using delete_version_try_done(1)[OF access xs len d] by (simp add: delete_version_def)
  have rows: "project_versions (snd (delete_version st u p v)) p
                = filter (\<lambda>r. v_version r \<noteq> v)
                    (if v_is_latest d then
                       (case sorted_desc ?others of
                          [] \<Rightarrow> ?xs
                        | h # _ \<Rightarrow> map (promote_row (v_version h)) ?xs)
                     else ?xs)"
    using delete_version_try_done(2)[OF access xs len d, of p] by (simp add: delete_version_def)
  have others: "?others \<noteq> []" using others_nonempty[OF dist xs len] .
  then obtain h rest where h: "sorted_desc ?others = h # rest" "h \<in> set ?others"
      "v_version h = Max (v_version ` set ?others)"
    using sorted_desc_head[of ?others] by blast
  have img: "v_version ` set ?others = set (version_numbers st p) - {v}"
    by (auto simp: version_numbers_def)
  have nums: "version_numbers (snd (delete_version st u p v)) p
                = filter (\<lambda>x. x \<noteq> v) (version_numbers st p)"
    unfolding version_numbers_def rows using h(1)
    by (simp add: filter_map comp_def)
  from one xs have "length (latest_versions st p) = 1" by (simp add: one_latest_def)
  then obtain w where w: "latest_versions st p = [w]"
    by (cases "latest_versions st p") auto
  show ?thesis
  proof (cases "v_is_latest d")
    case True
    then have "v \<in> set (latest_versions st p)"
      using d_in d_v by (auto simp: latest_versions_def)
    with w have wv: "latest_versions st p = [v]" by simp
    have rows2: "project_versions (snd (delete_version st u p v)) p
                   = filter (\<lambda>r. v_version r \<noteq> v) (map (promote_row (v_version h)) ?xs)"
      unfolding rows using True h(1) by simp
    have hmem: "v_version h \<in> set (map v_version ?xs)" and hne: "v_version h \<noteq> v"
      using h(2) by auto
    have "latest_versions (snd (delete_version st u p v)) p = [v_version h]"
      using latest_after_promotion[OF dist wv[unfolded latest_versions_def] hmem hne]
      by (simp only: latest_versions_def rows2)
    then show ?thesis using ok nums wv h(3) img by simp
  next
    case False
    have notin: "v \<notin> set (map v_version (filter v_is_latest ?xs))"
    proof
      assume "v \<in> set (map v_version (filter v_is_latest ?xs))"
      then obtain r where r: "r \<in> set ?xs" "v_is_latest r" "v_version r = v" by auto
      then have "r = d" using distinct_versions_same_row[OF dist r(1) d_in] d_v by simp
      with r(2) False show False by simp
    qed
    have ne: "latest_versions st p \<noteq> [v]"
    proof
      assume "latest_versions st p = [v]"
      then have "v \<in> set (map v_version (filter v_is_latest ?xs))"
        by (simp add: latest_versions_def)
      with notin show False by contradiction
    qed
    have rows2: "project_versions (snd (delete_version st u p v)) p
                   = filter (\<lambda>r. v_version r \<noteq> v) ?xs"
      unfolding rows using False by simp
    have "latest_versions (snd (delete_version st u p v)) p = latest_versions st p"
      using latest_after_plain_delete[OF notin]
      by (simp only: latest_versions_def rows2)
    then show ?thesis using ok nums ne by simp
  qed
qed

text \<open>
  Claim C4. In a project whose version numbers are unique and which has one latest
  version, an owner's \<open>delete_version\<close> of one of at least two versions succeeds and
  removes that version; if it was the latest, the remaining version with the highest
  number becomes the latest; if it was not, the latest version stays the one it was.
\<close>

theorem delete_version_promotes_highest:
  assumes "verify_project_access st p u"
    and "versions_unique st p" and "one_latest st p"
    and "2 \<le> length (version_numbers st p)"
    and "v \<in> set (version_numbers st p)"
  shows "is_success (fst (delete_version st u p v))
         \<and> version_numbers (snd (delete_version st u p v)) p
             = filter (\<lambda>x. x \<noteq> v) (version_numbers st p)
         \<and> (latest_versions st p = [v]
              \<longrightarrow> latest_versions (snd (delete_version st u p v)) p
                    = [Max (set (version_numbers st p) - {v})])
         \<and> (latest_versions st p \<noteq> [v]
              \<longrightarrow> latest_versions (snd (delete_version st u p v)) p = latest_versions st p)"
  using assms by (rule delete_version_effect)

theorem delete_version_promotes_highest_witness:
  "verify_project_access sample_state ''p1'' ''alice''
   \<and> versions_unique sample_state ''p1'' \<and> one_latest sample_state ''p1''
   \<and> version_numbers sample_state ''p1'' = [1, 2]
   \<and> latest_versions sample_state ''p1'' = [2]
   \<and> is_success (fst (delete_version sample_state ''alice'' ''p1'' 2))
   \<and> version_numbers (snd (delete_version sample_state ''alice'' ''p1'' 2)) ''p1'' = [1]
   \<and> latest_versions (snd (delete_version sample_state ''alice'' ''p1'' 2)) ''p1'' = [1]
   \<and> latest_versions (snd (delete_version sample_state ''alice'' ''p1'' 1)) ''p1'' = [2]"
proof -
  have rest: "({1, 2} - {2} :: int set) = {1}" by auto
  show ?thesis
    using delete_version_promotes_highest[of sample_state "''p1''" "''alice''" 2]
      delete_version_promotes_highest[of sample_state "''p1''" "''alice''" 1]
    by (simp add: rest)
qed

subsection \<open>Every request keeps one latest version\<close>



lemma snd_project_exceptions [simp]: "snd (project_exceptions d c r) = snd r"
  by (cases r) (auto simp: project_exceptions_def split: sum.splits exn.splits)

lemma is_success_project_exceptions [simp]:
  "is_success (fst (project_exceptions d c r)) = is_success (fst r)"
  by (cases r) (auto simp: project_exceptions_def split: sum.splits exn.splits)


lemma project_versions_projects_update [simp]:
  "project_versions (st\<lparr>projects := ps\<rparr>) p = project_versions st p"
  by (simp add: project_versions_def)


lemma project_versions_delete_many [simp]:
  "project_versions (delete_many st oids) p = project_versions st p"
  by (simp add: project_versions_def delete_many_def)





















lemma no_flag_differs_from_all [simp]: "\<not> (\<forall>x. (d::bool) = (\<not> x))"
  by blast





subsection \<open>The default schema\<close>

lemma sample_table_dump:
  "PDict (Table_model_dump sample_table) =
     PDict [(''name'', PStr ''sample_table''), (''schema_name'', PStr ''public''),
            (''type'', PStr ''dimension''),
            (''description'', PStr ''Sample table - you can modify or delete this''),
            (''columns'', PList
               [PDict [(''name'', PStr ''id''), (''type'', PStr ''bigint''), (''key'', PStr ''PK''),
                       (''nullable'', PBool False), (''description'', PStr ''Primary key''),
                       (''is_unique'', PBool False), (''is_indexed'', PBool False),
                       (''ui_hidden'', PBool False), (''isPK'', PBool True), (''isFK'', PBool False)],
                PDict [(''name'', PStr ''name''), (''type'', PStr ''varchar''), (''key'', PStr ''''),
                       (''nullable'', PBool True), (''description'', PStr ''Name field''),
                       (''length'', PInt 255),
                       (''is_unique'', PBool False), (''is_indexed'', PBool False),
                       (''ui_hidden'', PBool False), (''isPK'', PBool False), (''isFK'', PBool False)],
                PDict [(''name'', PStr ''created_at''), (''type'', PStr ''timestamp''),
                       (''key'', PStr ''''), (''nullable'', PBool False),
                       (''default_value'', PStr ''CURRENT_TIMESTAMP''),
                       (''description'', PStr ''Record creation timestamp''),
                       (''is_unique'', PBool False), (''is_indexed'', PBool False),
                       (''ui_hidden'', PBool False), (''isPK'', PBool False), (''isFK'', PBool False)]]),
            (''indexes'', PList []), (''constraints'', PList [])]"
  by (simp add: Table_model_dump_def sample_table_def Table_init_def Column_model_dump_def
      Column_init_def opt_field_def isPK_def isFK_def)

text \<open>
  Claim C7. \<open>create_version\<close> called by an owner with no \<open>base_version\<close> and no
  \<open>schemas\<close> succeeds and stores one new document. Its \<open>schemas\<close> holds exactly one
  table, \<open>sample_table\<close> of schema \<open>public\<close>, with exactly three columns: \<open>id\<close>
  (\<open>bigint\<close>, key \<open>PK\<close>, not nullable), \<open>name\<close> (\<open>varchar\<close>, length 255, nullable)
  and \<open>created_at\<close> (\<open>timestamp\<close>, not nullable, default \<open>CURRENT_TIMESTAMP\<close>). The
  stored dict is written out in full; it comes from \<open>create_initial_schema\<close>, whose one
  schema is named \<open>public\<close> and holds that one table.
\<close>

theorem create_version_default_schema:
  assumes "verify_project_access st project_id user_id" and "mongo_available st"
    and "cv_base_version version_data = None" and "cv_schemas version_data = []"
  shows "is_success (fst (create_version st e user_id project_id version_data))
         \<and> (\<exists>doc. dictionaries (snd (create_version st e user_id project_id version_data))
                     = dictionaries st @ [(env_object_id e, doc)]
                  \<and> dict_get doc ''schemas'' PNone
                      = PDict
                          [(''tables'', PList
                             [PDict
                                [(''name'', PStr ''sample_table''),
                                 (''schema_name'', PStr ''public''),
                                 (''type'', PStr ''dimension''),
                                 (''description'',
                                  PStr ''Sample table - you can modify or delete this''),
                                 (''columns'', PList
                                    [PDict [(''name'', PStr ''id''), (''type'', PStr ''bigint''),
                                            (''key'', PStr ''PK''), (''nullable'', PBool False),
                                            (''description'', PStr ''Primary key''),
                                            (''is_unique'', PBool False),
                                            (''is_indexed'', PBool False),
                                            (''ui_hidden'', PBool False),
                                            (''isPK'', PBool True), (''isFK'', PBool False)],
                                     PDict [(''name'', PStr ''name''), (''type'', PStr ''varchar''),
                                            (''key'', PStr ''''), (''nullable'', PBool True),
                                            (''description'', PStr ''Name field''),
                                            (''length'', PInt 255),
                                            (''is_unique'', PBool False),
                                            (''is_indexed'', PBool False),
                                            (''ui_hidden'', PBool False),
                                            (''isPK'', PBool False), (''isFK'', PBool False)],
                                     PDict [(''name'', PStr ''created_at''),
                                            (''type'', PStr ''timestamp''),
                                            (''key'', PStr ''''), (''nullable'', PBool False),
                                            (''default_value'', PStr ''CURRENT_TIMESTAMP''),
                                            (''description'', PStr ''Record creation timestamp''),
                                            (''is_unique'', PBool False),
                                            (''is_indexed'', PBool False),
                                            (''ui_hidden'', PBool False),
                                            (''isPK'', PBool False), (''isFK'', PBool False)]]),
                                 (''indexes'', PList []), (''constraints'', PList [])]]),
                           (''relationships'', PList [])])
         \<and> map s_name create_initial_schema = [''public'']
         \<and> map (\<lambda>s. map t_name (s_tables s)) create_initial_schema = [[''sample_table'']]"
proof -
  have run: "create_version st e user_id project_id version_data
               = (fst (create_version st e user_id project_id version_data),
                  insert_version
                    (clear_latest
                       (insert_one st (env_object_id e)
                          (dictionary_doc e project_id (next_version_of st project_id) version_data
                             (schemas_to_dict create_initial_schema) (PList []) empty_erd))
                       project_id)
                    (version_metadata e project_id (next_version_of st project_id)
                       (env_object_id e) version_data))"
    and ok: "is_success (fst (create_version st e user_id project_id version_data))"
    using assms by (simp_all add: create_version_def create_version_try_def Let_def)
  have docs: "dictionaries (snd (create_version st e user_id project_id version_data))
                = dictionaries st
                  @ [(env_object_id e,
                      dictionary_doc e project_id (next_version_of st project_id) version_data
                        (schemas_to_dict create_initial_schema) (PList []) empty_erd)]"
    by (subst run) (simp add: insert_version_def clear_latest_def insert_one_def)
  have field: "dict_get (dictionary_doc e project_id n version_data s r d) ''schemas'' PNone = s"
    for n s r d
    by (simp add: dictionary_doc_def dict_get_def)
  have stored: "schemas_to_dict create_initial_schema
                  = PDict [(''tables'', PList [PDict (Table_model_dump sample_table)]),
                           (''relationships'', PList [])]"
    by (simp add: schemas_to_dict_def create_initial_schema_def Schema_init_def)
  have names: "map s_name create_initial_schema = [''public'']"
    "map (\<lambda>s. map t_name (s_tables s)) create_initial_schema = [[''sample_table'']]"
    by (simp_all add: create_initial_schema_def Schema_init_def sample_table_def Table_init_def)
  show ?thesis
    using ok names
    by (simp add: docs field stored sample_table_dump[simplified])
qed

theorem create_version_default_schema_witness:
  "verify_project_access sample_state ''p1'' ''alice'' \<and> mongo_available sample_state
   \<and> cv_base_version plain_request = None \<and> cv_schemas plain_request = []
   \<and> is_success (fst (create_version sample_state sample_env ''alice'' ''p1'' plain_request))
   \<and> stored_tables (snd (create_version sample_state sample_env ''alice'' ''p1'' plain_request))
        ''a3''
       = PList
           [PDict
              [(''name'', PStr ''sample_table''), (''schema_name'', PStr ''public''),
               (''type'', PStr ''dimension''),
               (''description'', PStr ''Sample table - you can modify or delete this''),
               (''columns'', PList
                  [PDict [(''name'', PStr ''id''), (''type'', PStr ''bigint''),
                          (''key'', PStr ''PK''), (''nullable'', PBool False),
                          (''description'', PStr ''Primary key''),
                          (''is_unique'', PBool False), (''is_indexed'', PBool False),
                          (''ui_hidden'', PBool False),
                          (''isPK'', PBool True), (''isFK'', PBool False)],
                   PDict [(''name'', PStr ''name''), (''type'', PStr ''varchar''),
                          (''key'', PStr ''''), (''nullable'', PBool True),
                          (''description'', PStr ''Name field''), (''length'', PInt 255),
                          (''is_unique'', PBool False), (''is_indexed'', PBool False),
                          (''ui_hidden'', PBool False),
                          (''isPK'', PBool False), (''isFK'', PBool False)],
                   PDict [(''name'', PStr ''created_at''), (''type'', PStr ''timestamp''),
                          (''key'', PStr ''''), (''nullable'', PBool False),
                          (''default_value'', PStr ''CURRENT_TIMESTAMP''),
                          (''description'', PStr ''Record creation timestamp''),
                          (''is_unique'', PBool False), (''is_indexed'', PBool False),
                          (''ui_hidden'', PBool False),
                          (''isPK'', PBool False), (''isFK'', PBool False)]]),
               (''indexes'', PList []), (''constraints'', PList [])]]"
proof -
  have req: "cv_base_version plain_request = None" "cv_schemas plain_request = []"
    by (simp_all add: plain_request_def)
  from create_version_default_schema[OF sample_access sample_mongo req, of sample_env]
  obtain doc where
    ok: "is_success (fst (create_version sample_state sample_env ''alice'' ''p1'' plain_request))"
    and docs: "dictionaries (snd (create_version sample_state sample_env ''alice'' ''p1'' plain_request))
                 = dictionaries sample_state @ [(env_object_id sample_env, doc)]"
    and sch: "dict_get doc ''schemas'' PNone
                = PDict
                    [(''tables'', PList
                       [PDict
                          [(''name'', PStr ''sample_table''), (''schema_name'', PStr ''public''),
                           (''type'', PStr ''dimension''),
                           (''description'', PStr ''Sample table - you can modify or delete this''),
                           (''columns'', PList
                              [PDict [(''name'', PStr ''id''), (''type'', PStr ''bigint''),
                                      (''key'', PStr ''PK''), (''nullable'', PBool False),
                                      (''description'', PStr ''Primary key''),
                                      (''is_unique'', PBool False), (''is_indexed'', PBool False),
                                      (''ui_hidden'', PBool False),
                                      (''isPK'', PBool True), (''isFK'', PBool False)],
                               PDict [(''name'', PStr ''name''), (''type'', PStr ''varchar''),
                                      (''key'', PStr ''''), (''nullable'', PBool True),
                                      (''description'', PStr ''Name field''),
                                      (''length'', PInt 255),
                                      (''is_unique'', PBool False), (''is_indexed'', PBool False),
                                      (''ui_hidden'', PBool False),
                                      (''isPK'', PBool False), (''isFK'', PBool False)],
                               PDict [(''name'', PStr ''created_at''),
                                      (''type'', PStr ''timestamp''),
                                      (''key'', PStr ''''), (''nullable'', PBool False),
                                      (''default_value'', PStr ''CURRENT_TIMESTAMP''),
                                      (''description'', PStr ''Record creation timestamp''),
                                      (''is_unique'', PBool False), (''is_indexed'', PBool False),
                                      (''ui_hidden'', PBool False),
                                      (''isPK'', PBool False), (''isFK'', PBool False)]]),
                           (''indexes'', PList []), (''constraints'', PList [])]]),
                     (''relationships'', PList [])]"
    by blast
  have "stored_field (snd (create_version sample_state sample_env ''alice'' ''p1'' plain_request))
          ''a3'' ''schemas'' = dict_get doc ''schemas'' PNone"
    unfolding stored_field_def docs by (simp add: sample_state_def sample_env_def)
  then show ?thesis
    using ok req unfolding stored_tables_def sch by (simp add: dict_get_def)
qed

subsection \<open>The latest version without its document\<close>

text \<open>
  Claim C6, as stated, fails: in the sample store without the document of version 2,
  the latest row exists, its document does not, and \<open>get_latest_version\<close> returns the
  success envelope with the row and \<open>dictionary: None\<close>.
\<close>

theorem get_latest_missing_document_counterexample:
  "v_is_latest (sample_row 2 ''u2'' ''a2'' True)
   \<and> filter v_is_latest (project_versions orphan_state ''p1'') = [sample_row 2 ''u2'' ''a2'' True]
   \<and> find_one orphan_state (v_mongo_id (sample_row 2 ''u2'' ''a2'' True)) = None
   \<and> get_latest_version orphan_state ''alice'' ''p1'' = (Inr latest_without_document, orphan_state)
   \<and> is_success (Inr latest_without_document)"
  by (simp add: orphan_state_def sample_state_def get_latest_version_def
      get_latest_version_try_def project_versions_def sample_row_def find_one_def
      verify_project_access_def Let_def returned_dictionary_def latest_without_document_def
      is_success_def success_response_def dict_get_def)

lemma handle_exceptions_DatabaseError [simp]:
  "handle_exceptions (Inl (DatabaseError m), s) = (Inr (error_response m [] 500), s)"
  by (simp add: handle_exceptions_def)

text \<open>
  Claim C6, amended. For an owner and a project with a latest row: when the document
  store is reachable and holds no document under the row's \<open>mongo_id\<close>,
  \<open>get_latest_version\<close> returns the success envelope with the row and a null dictionary
  (the \<open>if dictionary:\<close> guard only skips the conversions); an error is reported only
  when the store is not reachable.
\<close>

theorem get_latest_missing_document:
  assumes "verify_project_access st p u"
    and "filter v_is_latest (project_versions st p) = row # others"
  shows "(mongo_available st \<and> find_one st (v_mongo_id row) = None
            \<longrightarrow> get_latest_version st u p
                  = (Inr (success_response
                            (PDict [(''version'', version_row_dump row), (''dictionary'', PNone)])
                            ''Latest version retrieved successfully''), st))
         \<and> (\<not> mongo_available st
              \<longrightarrow> get_latest_version st u p
                    = (Inr (error_response ''MongoDB connection not available'' [] 500), st))"
  using assms
  by (simp add: get_latest_version_def get_latest_version_try_def Let_def
      returned_dictionary_def mongo_unavailable_def)

theorem get_latest_missing_document_witness:
  "verify_project_access orphan_state ''p1'' ''alice''
   \<and> filter v_is_latest (project_versions orphan_state ''p1'') = [sample_row 2 ''u2'' ''a2'' True]
   \<and> mongo_available orphan_state
   \<and> find_one orphan_state (v_mongo_id (sample_row 2 ''u2'' ''a2'' True)) = None
   \<and> get_latest_version orphan_state ''alice'' ''p1'' = (Inr latest_without_document, orphan_state)"
proof -
  have a: "verify_project_access orphan_state ''p1'' ''alice''"
    by (simp add: verify_project_access_def orphan_state_def sample_state_def)
  have l: "filter v_is_latest (project_versions orphan_state ''p1'')
             = [sample_row 2 ''u2'' ''a2'' True]"
    by (simp add: project_versions_def orphan_state_def sample_state_def sample_row_def)
  have m: "mongo_available orphan_state" by (simp add: orphan_state_def sample_state_def)
  have f: "find_one orphan_state (v_mongo_id (sample_row 2 ''u2'' ''a2'' True)) = None"
    by (simp add: find_one_def orphan_state_def sample_row_def)
  show ?thesis
    using get_latest_missing_document[OF a l] a l m f
    by (simp add: latest_without_document_def)
qed

subsection \<open>get_table on the stored shape\<close>

lemma sample_fetch:
  "fetch_dictionary sample_state ''alice'' ''p1'' 1
     = Inr (''a1'', (''_id'', PObjectId ''a1'') # sample_doc 1)"
  by (simp add: fetch_dictionary_def get_version_mongo_id_def select_version_def single_def
      find_one_def sample_state_def sample_row_def verify_project_access_def)

lemma sample_doc_schemas:
  "dict_get ((''_id'', PObjectId ''a1'') # sample_doc 1) ''schemas'' dflt
     = PDict [(''tables'', PList [PDict (Table_model_dump orders_table), PDict (Table_model_dump items_table)]),
              (''relationships'', PList [])]"
  by (simp add: dict_get_def sample_doc_def schemas_to_dict_def sample_schemas_def
      Schema_init_def)

text \<open>
  Claim C10, as stated, fails: on the sample store, whose documents have the dict shape,
  \<open>get_table\<close> for the stored table \<open>orders\<close> raises \<open>AttributeError\<close>, not
  \<open>NotFoundError\<close>: the loop variable is the key \<open>"tables"\<close>, a \<open>str\<close>.
\<close>

theorem get_table_canonical_counterexample:
  "stored_field sample_state ''a1'' ''schemas''
     = PDict [(''tables'', PList [PDict (Table_model_dump orders_table), PDict (Table_model_dump items_table)]),
              (''relationships'', PList [])]
   \<and> get_table_try sample_state ''alice'' ''p1'' 1 ''orders'' ''public''
       = (Inl (AttributeError str_has_no_get), sample_state)
   \<and> AttributeError str_has_no_get \<noteq> table_not_found ''orders'' ''public''
   \<and> get_table sample_state ''alice'' ''p1'' 1 ''orders'' ''public''
       = (Inr (error_response str_has_no_get [] 500), sample_state)"
proof -
  have stored: "stored_field sample_state ''a1'' ''schemas''
     = PDict [(''tables'', PList [PDict (Table_model_dump orders_table), PDict (Table_model_dump items_table)]),
              (''relationships'', PList [])]"
    by (simp add: stored_field_def sample_state_def dict_get_def sample_doc_def
        schemas_to_dict_def sample_schemas_def Schema_init_def)
  have raised: "get_table_try sample_state ''alice'' ''p1'' 1 ''orders'' ''public''
       = (Inl (AttributeError str_has_no_get), sample_state)"
    by (simp add: get_table_try_def sample_fetch ebind_def found_table_def sample_doc_schemas
        no_attribute_def str_has_no_get_def)
  have "get_table sample_state ''alice'' ''p1'' 1 ''orders'' ''public''
       = (Inr (error_response str_has_no_get [] 500), sample_state)"
    by (simp add: get_table_def raised handle_exceptions_def)
  then show ?thesis using stored raised by (simp add: table_not_found_def)
qed

text \<open>
  Claim C10, amended. For every document whose \<open>schemas\<close> is the dict
  \<open>{"tables": [...], "relationships": [...]}\<close> and every table and schema name,
  \<open>get_table\<close> never returns a table: iterating the dict yields its keys, \<open>.get\<close> on the
  first key raises \<open>AttributeError\<close>, and the endpoint answers with the error envelope
  of code 500.
\<close>

theorem get_table_canonical_fails:
  assumes "fetch_dictionary st u p v = Inr (mongo_id, dictionary)"
    and "dict_get dictionary ''schemas'' (PList [])
           = PDict [(''tables'', PList tables), (''relationships'', PList relationships)]"
  shows "get_table_try st u p v table_name schema_name
           = (Inl (AttributeError str_has_no_get), st)
         \<and> get_table st u p v table_name schema_name
             = (Inr (error_response str_has_no_get [] 500), st)
         \<and> \<not> is_success (fst (get_table st u p v table_name schema_name))"
proof -
  have raised: "get_table_try st u p v table_name schema_name
                  = (Inl (AttributeError str_has_no_get), st)"
    using assms
    by (simp add: get_table_try_def ebind_def found_table_def no_attribute_def
        str_has_no_get_def)
  then have "get_table st u p v table_name schema_name
               = (Inr (error_response str_has_no_get [] 500), st)"
    by (simp add: get_table_def handle_exceptions_def)
  then show ?thesis using raised by simp
qed

theorem get_table_canonical_fails_witness:
  "fetch_dictionary sample_state ''alice'' ''p1'' 1
     = Inr (''a1'', (''_id'', PObjectId ''a1'') # sample_doc 1)
   \<and> get_table sample_state ''alice'' ''p1'' 1 ''items'' ''public''
       = (Inr (error_response str_has_no_get [] 500), sample_state)"
  using get_table_canonical_fails[OF sample_fetch sample_doc_schemas, of "''items''" "''public''"]
    sample_fetch
  by simp

subsection \<open>create_version from a base version\<close>

lemma create_version_stored_schemas:
  assumes "is_success (fst (create_version st e u p r))"
  shows "\<exists>doc. dictionaries (snd (create_version st e u p r))
                 = dictionaries st @ [(env_object_id e, doc)]
              \<and> dict_get doc ''schemas'' PNone
                  = schemas_to_dict (if cv_schemas r \<noteq> [] then cv_schemas r
                                     else create_initial_schema)"
  using assms
  by (auto simp add: create_version_def create_version_try_def Let_def insert_one_def
      clear_latest_def insert_version_def dictionary_doc_def dict_get_def
      split: if_splits option.splits sum.splits)

lemma sample_base_copy:
  "base_version_copy sample_state ''p1'' 1
     = Inr (Some (schemas_to_dict sample_schemas,
                  PList [PDict (Relationship_model_dump sample_relationship)], empty_erd))"
  by (simp add: base_version_copy_def select_version_def single_def ebind_def find_one_def
      sample_state_def sample_row_def dict_get_def sample_doc_def)

lemma forked_state_eq:
  "create_version sample_state sample_env ''alice'' ''p1'' fork_request
     = (fst (create_version sample_state sample_env ''alice'' ''p1'' fork_request),
        insert_version
          (clear_latest
             (insert_one sample_state ''a3''
                (dictionary_doc sample_env ''p1'' 3 fork_request
                   (schemas_to_dict create_initial_schema)
                   (PList [PDict (Relationship_model_dump sample_relationship)]) empty_erd)) ''p1'')
          (version_metadata sample_env ''p1'' 3 ''a3'' fork_request))"
proof -
  have nxt: "next_version_of sample_state ''p1'' = 3" by (simp add: next_version_of_eq)
  show ?thesis
    by (simp add: create_version_def create_version_try_def Let_def fork_request_def
        sample_base_copy nxt sample_env_def)
qed

text \<open>
  Claim C1 at a failing input. Version 1 of the sample store holds the tables \<open>orders\<close>
  and \<open>items\<close>. \<open>create_version\<close> with \<open>base_version = 1\<close> and no \<open>schemas\<close> succeeds
  and copies \<open>relationships\<close> and \<open>erd\<close>, but the new document's \<open>schemas\<close> is the
  default schema: the base's is assigned to \<open>schemas_data\<close>, which nothing reads.
\<close>

theorem create_version_base_schemas_not_copied:
  "fork_request = \<lparr>cv_name = ''fork'', cv_description = None, cv_base_version = Some 1,
                    cv_schemas = []\<rparr>
   \<and> is_success (fst (create_version sample_state sample_env ''alice'' ''p1'' fork_request))
   \<and> stored_field forked_state ''a3'' ''relationships''
       = stored_field sample_state ''a1'' ''relationships''
   \<and> stored_field forked_state ''a3'' ''erd'' = stored_field sample_state ''a1'' ''erd''
   \<and> stored_field sample_state ''a1'' ''schemas'' = schemas_to_dict sample_schemas
   \<and> stored_field forked_state ''a3'' ''schemas'' = schemas_to_dict create_initial_schema
   \<and> stored_field forked_state ''a3'' ''schemas'' \<noteq> stored_field sample_state ''a1'' ''schemas''"
proof -
  have ok: "is_success (fst (create_version sample_state sample_env ''alice'' ''p1'' fork_request))"
    by (simp add: create_version_def create_version_try_def Let_def fork_request_def
        sample_base_copy)
  have docs: "dictionaries forked_state
                = dictionaries sample_state
                  @ [(''a3'', dictionary_doc sample_env ''p1'' 3 fork_request
                                (schemas_to_dict create_initial_schema)
                                (PList [PDict (Relationship_model_dump sample_relationship)]) empty_erd)]"
    unfolding forked_state_def
    by (subst forked_state_eq) (simp add: insert_version_def clear_latest_def insert_one_def)
  have new: "stored_field forked_state ''a3'' ''schemas'' = schemas_to_dict create_initial_schema"
    "stored_field forked_state ''a3'' ''relationships''
       = PList [PDict (Relationship_model_dump sample_relationship)]"
    "stored_field forked_state ''a3'' ''erd'' = empty_erd"
    unfolding stored_field_def docs
    by (simp_all add: sample_state_def dictionary_doc_def dict_get_def)
  have old: "stored_field sample_state ''a1'' ''schemas'' = schemas_to_dict sample_schemas"
    "stored_field sample_state ''a1'' ''relationships''
       = PList [PDict (Relationship_model_dump sample_relationship)]"
    "stored_field sample_state ''a1'' ''erd'' = empty_erd"
    by (simp_all add: stored_field_def sample_state_def sample_doc_def dict_get_def)
  have differ: "schemas_to_dict create_initial_schema \<noteq> schemas_to_dict sample_schemas"
    by (simp add: schemas_to_dict_def create_initial_schema_def sample_schemas_def
        Schema_init_def)
  show ?thesis using ok new old differ by (simp add: fork_request_def)
qed

subsection \<open>delete_column\<close>

lemma ebind_simps [simp]:
  "ebind (Inl ex) f = Inl ex"
  "ebind (Inr x) f = f x"
  by (simp_all add: ebind_def)

lemma first_index_Cons:
  "first_index P (x # xs) k = (if P x then k = 0 else (\<exists>k'. k = Suc k' \<and> first_index P xs k'))"
  by (cases k) (auto simp: first_index_def)

lemma pk_count_dicts: "pk_count (map PDict cs) = Inr (length (filter is_pk cs))"
  by (induction cs) auto

lemma relationships_without_table_dicts:
  "relationships_without_table (map PDict rels) t
     = Inr (map PDict (filter (keeps_table_relationship t) rels))"
  by (induction rels) (auto simp: keeps_table_relationship_def)

lemma relationships_without_column_dicts:
  "relationships_without_column (map PDict rels) t c
     = Inr (map PDict (filter (keeps_column_relationship t c) rels))"
  by (induction rels) (auto simp: keeps_column_relationship_def)

lemma delete_column_loop_found:
  assumes "first_index (has_name cn) cs k"
  shows "delete_column_loop columns (map PDict cs) i cn
           = (if length columns = 1
              then Inl (ValidationError ''Cannot delete the last column in a table'')
              else if is_pk (cs ! k) then
                ebind (pk_count columns)
                  (\<lambda>n. if n = 1
                        then Inl (ValidationError ''Cannot delete the only primary key column'')
                        else Inr (Some (take (i + k) columns @ drop (Suc (i + k)) columns)))
              else Inr (Some (take (i + k) columns @ drop (Suc (i + k)) columns)))"
  using assms
proof (induction cs arbitrary: i k)
  case Nil
  then show ?case by (simp add: first_index_def)
next
  case (Cons c cs)
  show ?case
  proof (cases "has_name cn c")
    case True
    then have k0: "k = 0" using Cons.prems by (simp add: first_index_Cons)
    show ?thesis unfolding k0 using True by (simp add: has_name_def cong: if_cong)
  next
    case False
    then obtain k' where k: "k = Suc k'" "first_index (has_name cn) cs k'"
      using Cons.prems by (auto simp: first_index_Cons)
    show ?thesis unfolding k(1) using False Cons.IH[OF k(2), of "Suc i"]
      by (simp add: has_name_def cong: if_cong)
  qed
qed

lemma delete_column_tables_found:
  assumes "first_index (\<lambda>t. table_matches t tn sn) ts j"
  shows "delete_column_tables tables (map PDict ts) i tn sn cn
           = ebind (py_iter (dict_get (ts ! j) ''columns'' (PList [])))
               (\<lambda>columns. ebind (delete_column_loop columns columns 0 cn)
                  (\<lambda>found. case found of
                     None \<Rightarrow> Inl (column_not_found cn tn)
                   | Some columns' \<Rightarrow>
                       Inr (tables[i + j := PDict (AList.update ''columns'' (PList columns')
                                                     (ts ! j))])))"
  using assms
proof (induction ts arbitrary: i j)
  case Nil
  then show ?case by (simp add: first_index_def)
next
  case (Cons t ts)
  show ?case
  proof (cases "table_matches t tn sn")
    case True
    then have j0: "j = 0" using Cons.prems by (simp add: first_index_Cons)
    show ?thesis unfolding j0 using True by (simp cong: if_cong option.case_cong)
  next
    case False
    then obtain j' where j: "j = Suc j'" "first_index (\<lambda>t. table_matches t tn sn) ts j'"
      using Cons.prems by (auto simp: first_index_Cons)
    show ?thesis unfolding j(1) using False Cons.IH[OF j(2), of "Suc i"]
      by (simp cong: if_cong option.case_cong)
  qed
qed

lemma delete_table_loop_found:
  assumes "first_index (\<lambda>t. table_matches t tn sn) ts j"
  shows "delete_table_loop tables (map PDict ts) i tn sn
           = Inr (Some (PDict (ts ! j), take (i + j) tables @ drop (Suc (i + j)) tables))"
  using assms
proof (induction ts arbitrary: i j)
  case Nil
  then show ?case by (simp add: first_index_def)
next
  case (Cons t ts)
  show ?case
  proof (cases "table_matches t tn sn")
    case True
    then have j0: "j = 0" using Cons.prems by (simp add: first_index_Cons)
    show ?thesis unfolding j0 using True by (simp cong: if_cong option.case_cong)
  next
    case False
    then obtain j' where j: "j = Suc j'" "first_index (\<lambda>t. table_matches t tn sn) ts j'"
      using Cons.prems by (auto simp: first_index_Cons)
    show ?thesis unfolding j(1) using False Cons.IH[OF j(2), of "Suc i"]
      by (simp cong: if_cong option.case_cong)
  qed
qed

lemma fetch_dictionary_stored:
  assumes "fetch_dictionary st u p v = Inr (m, dictionary)"
  shows "\<exists>doc. map_of (dictionaries st) m = Some doc
               \<and> dictionary = (''_id'', PObjectId m) # doc"
  using assms
  by (auto simp: fetch_dictionary_def find_one_def split: if_splits option.splits)

lemma dict_get_Cons_other [simp]:
  "k \<noteq> k' \<Longrightarrow> dict_get ((k', x) # d) k dflt = dict_get d k dflt"
  by (simp add: dict_get_def)

lemma dict_get_update_same [simp]:
  "dict_get (AList.update k x d) k dflt = x"
  by (simp add: dict_get_def update_conv)

lemma dict_get_update_other [simp]:
  "k \<noteq> k' \<Longrightarrow> dict_get (AList.update k' x d) k dflt = dict_get d k dflt"
  by (simp add: dict_get_def update_conv)

lemma commit_Inr:
  assumes "map_of (dictionaries st) m = Some doc"
  shows "commit st m failure (Inr (sets, response))
           = (if apply_set sets doc = doc then (Inl (DatabaseError failure), st)
              else (Inr response,
                    st\<lparr>dictionaries := AList.update m (apply_set sets doc) (dictionaries st)\<rparr>))"
  using assms by (simp add: commit_def update_one_def Let_def)

lemma stored_field_updated:
  "stored_field (st\<lparr>dictionaries := AList.update m doc (dictionaries st)\<rparr>) m k
     = dict_get doc k PNone"
  by (simp add: stored_field_def update_conv)

lemma derived_flags_member:
  "derived_flags_ok cs \<Longrightarrow> c \<in> set cs \<Longrightarrow> is_pk c = key_is_PK c"
  by (auto simp: derived_flags_ok_def list_all_iff is_pk_def key_is_PK_def)

lemma derived_flags_filter:
  "derived_flags_ok cs \<Longrightarrow> filter is_pk cs = filter key_is_PK cs"
  by (rule filter_cong) (simp_all add: derived_flags_member)

lemma delete_column_plan_eval:
  assumes schemas: "dict_get dictionary ''schemas'' (PDict []) = PDict sd"
    and tables: "map_of sd ''tables'' = Some (PList (map PDict ts))"
    and table: "first_index (\<lambda>t. table_matches t tn sn) ts j"
    and columns: "dict_get (ts ! j) ''columns'' (PList []) = PList (map PDict cs)"
    and column: "first_index (has_name cn) cs i"
    and rels: "dict_get dictionary ''relationships'' (PList []) = PList (map PDict rels)"
  shows "delete_column_plan e dictionary tn cn sn
           = (if length cs = 1
              then Inl (ValidationError ''Cannot delete the last column in a table'')
              else if is_pk (cs ! i) \<and> length (filter is_pk cs) = 1
              then Inl (ValidationError ''Cannot delete the only primary key column'')
              else Inr (deletion_sets e sd (without_column ts j i cs)
                          (filter (keeps_column_relationship tn cn) rels),
                        success_response
                          (PDict [(''deleted_column'', PStr cn),
                                  (''relationships_removed'',
                                   PInt (int (length rels)
                                         - int (length (filter (keeps_column_relationship tn cn)
                                                          rels))))])
                          (''Column '' @ quote cn @ '' deleted successfully from table ''
                             @ quote tn)))"
proof -
  have sw: "schemas_with_tables dictionary tn sn = Inr sd"
    using schemas tables by (simp add: schemas_with_tables_def)
  have it: "py_iter (dict_get sd ''tables'' (PList [])) = Inr (map PDict ts)"
    using tables by (simp add: dict_get_def)
  have loop: "delete_column_tables (map PDict ts) (map PDict ts) 0 tn sn cn
                = ebind (delete_column_loop (map PDict cs) (map PDict cs) 0 cn)
                    (\<lambda>found. case found of
                       None \<Rightarrow> Inl (column_not_found cn tn)
                     | Some columns' \<Rightarrow>
                         Inr ((map PDict ts)
                                [j := PDict (AList.update ''columns'' (PList columns') (ts ! j))]))"
    using delete_column_tables_found[OF table, of "map PDict ts" 0 cn] columns by simp
  have inner: "delete_column_loop (map PDict cs) (map PDict cs) 0 cn
                 = (if length cs = 1
                    then Inl (ValidationError ''Cannot delete the last column in a table'')
                    else if is_pk (cs ! i) \<and> length (filter is_pk cs) = 1
                    then Inl (ValidationError ''Cannot delete the only primary key column'')
                    else Inr (Some (map PDict (take i cs @ drop (Suc i) cs))))"
    using delete_column_loop_found[OF column, of "map PDict cs" 0]
    by (simp add: pk_count_dicts take_map drop_map)
  show ?thesis
    unfolding delete_column_plan_def
    by (simp add: sw it loop inner rels relationships_without_column_dicts
        deletion_sets_def without_column_def)
qed

lemma apply_set_schemas [simp]:
  "dict_get (apply_set (deletion_sets e sd tables kept) doc) ''schemas'' dflt
     = PDict (AList.update ''tables'' (PList tables) sd)"
  by (simp add: apply_set_def deletion_sets_def)

lemma apply_set_relationships [simp]:
  "dict_get (apply_set (deletion_sets e sd tables kept) doc) ''relationships'' dflt
     = PList (map PDict kept)"
  by (simp add: apply_set_def deletion_sets_def)

lemma without_column_changes:
  assumes tables: "map_of sd ''tables'' = Some (PList (map PDict ts))"
    and j: "j < length ts"
    and columns: "dict_get (ts ! j) ''columns'' (PList []) = PList (map PDict cs)"
    and i: "i < length cs"
  shows "PDict (AList.update ''tables'' (PList (without_column ts j i cs)) sd) \<noteq> PDict sd"
proof
  assume "PDict (AList.update ''tables'' (PList (without_column ts j i cs)) sd) = PDict sd"
  then have "dict_get (AList.update ''tables'' (PList (without_column ts j i cs)) sd)
               ''tables'' PNone = dict_get sd ''tables'' PNone"
    by simp
  moreover have "dict_get sd ''tables'' PNone = PList (map PDict ts)"
    using tables by (simp add: dict_get_def)
  ultimately have "without_column ts j i cs = map PDict ts"
    by simp
  then have "without_column ts j i cs ! j = map PDict ts ! j" by simp
  then have "AList.update ''columns'' (PList (map PDict (take i cs @ drop (Suc i) cs))) (ts ! j)
               = ts ! j"
    using j by (simp add: without_column_def)
  then have "dict_get (AList.update ''columns'' (PList (map PDict (take i cs @ drop (Suc i) cs)))
                          (ts ! j)) ''columns'' (PList [])
               = dict_get (ts ! j) ''columns'' (PList [])"
    by simp
  then have "map PDict (take i cs @ drop (Suc i) cs) = map PDict cs"
    using columns by simp
  then have "length (take i cs @ drop (Suc i) cs) = length cs"
    by (metis length_map)
  then show False using i by simp
qed

lemma handle_exceptions_Inl_ValidationError:
  "r = (Inl (ValidationError msg), s) \<Longrightarrow> handle_exceptions r = (Inr (error_response msg [] 500), s)"
  by (simp add: handle_exceptions_def)

text \<open>
  Claim C8. Take a stored document in the dict shape whose table list holds dicts, the
  first table of the asked name and schema, its column dicts, and among them the first
  column of the asked name; let the derived flag \<open>isPK\<close> of every column agree with its
  \<open>key\<close>. Then \<open>delete_column\<close> raises \<open>ValidationError\<close> and changes nothing when that
  column is the table's only column, and when the table has more columns but this one
  has \<open>key = "PK"\<close> and is the only such column; in every other case it succeeds, and
  the stored table list is the old one with exactly that column taken out of that
  table, every other column and table unchanged.
\<close>

theorem delete_column_rules:
  assumes fetched: "fetch_dictionary st u p v = Inr (m, dictionary)"
    and schemas: "dict_get dictionary ''schemas'' (PDict []) = PDict sd"
    and tables: "map_of sd ''tables'' = Some (PList (map PDict ts))"
    and table: "first_index (\<lambda>t. table_matches t tn sn) ts j"
    and columns: "dict_get (ts ! j) ''columns'' (PList []) = PList (map PDict cs)"
    and column: "first_index (has_name cn) cs i"
    and rels: "dict_get dictionary ''relationships'' (PList []) = PList (map PDict rels)"
    and flags: "derived_flags_ok cs"
  shows "(length cs = 1
            \<longrightarrow> delete_column_try st e u p v tn cn sn
                  = (Inl (ValidationError ''Cannot delete the last column in a table''), st)
                \<and> delete_column st e u p v tn cn sn
                  = (Inr (error_response ''Cannot delete the last column in a table'' [] 500), st))
         \<and> (length cs \<noteq> 1 \<and> key_is_PK (cs ! i) \<and> length (filter key_is_PK cs) = 1
              \<longrightarrow> delete_column_try st e u p v tn cn sn
                    = (Inl (ValidationError ''Cannot delete the only primary key column''), st)
                  \<and> delete_column st e u p v tn cn sn
                    = (Inr (error_response ''Cannot delete the only primary key column'' [] 500),
                       st))
         \<and> (length cs \<noteq> 1 \<and> \<not> (key_is_PK (cs ! i) \<and> length (filter key_is_PK cs) = 1)
              \<longrightarrow> is_success (fst (delete_column st e u p v tn cn sn))
                  \<and> stored_tables (snd (delete_column st e u p v tn cn sn)) m
                      = PList (without_column ts j i cs))"
proof -
  from fetch_dictionary_stored[OF fetched] obtain doc where
    doc: "map_of (dictionaries st) m = Some doc" and
    dictionary: "dictionary = (''_id'', PObjectId m) # doc"
    by blast
  have i: "i < length cs" and j: "j < length ts"
    using column table by (simp_all add: first_index_def)
  have pk: "is_pk (cs ! i) = key_is_PK (cs ! i)"
    using derived_flags_member[OF flags, of "cs ! i"] i by simp
  have count: "filter is_pk cs = filter key_is_PK cs"
    using derived_flags_filter[OF flags] .
  note plan = delete_column_plan_eval[OF schemas tables table columns column rels, of e]
  have try_eq: "delete_column_try st e u p v tn cn sn
                  = commit st m ''Failed to delete column'' (delete_column_plan e dictionary tn cn sn)"
    by (simp add: delete_column_try_def fetched)
  have last: "length cs = 1 \<Longrightarrow> delete_column_try st e u p v tn cn sn
                = (Inl (ValidationError ''Cannot delete the last column in a table''), st)"
    by (simp add: try_eq plan commit_def)
  have only: "length cs \<noteq> 1 \<Longrightarrow> key_is_PK (cs ! i) \<Longrightarrow> length (filter key_is_PK cs) = 1
                \<Longrightarrow> delete_column_try st e u p v tn cn sn
                = (Inl (ValidationError ''Cannot delete the only primary key column''), st)"
    by (simp add: try_eq plan commit_def pk count)
  have removed: "is_success (fst (delete_column st e u p v tn cn sn))
                 \<and> stored_tables (snd (delete_column st e u p v tn cn sn)) m
                     = PList (without_column ts j i cs)"
    if a: "length cs \<noteq> 1" and b: "\<not> (key_is_PK (cs ! i) \<and> length (filter key_is_PK cs) = 1)"
  proof -
    let ?sets = "deletion_sets e sd (without_column ts j i cs)
                   (filter (keeps_column_relationship tn cn) rels)"
    have old: "dict_get doc ''schemas'' (PDict []) = PDict sd"
      using schemas dictionary by simp
    have "dict_get (apply_set ?sets doc) ''schemas'' (PDict []) \<noteq> dict_get doc ''schemas'' (PDict [])"
      using without_column_changes[OF tables j columns i] old by simp
    then have changed: "apply_set ?sets doc \<noteq> doc" by metis
    have "\<exists>response. is_success (Inr response)
            \<and> delete_column_plan e dictionary tn cn sn = Inr (?sets, response)"
      using a b unfolding plan by (auto simp: pk count)
    then obtain response where ok: "is_success (Inr response)" and
      planned: "delete_column_plan e dictionary tn cn sn = Inr (?sets, response)"
      by blast
    have run: "delete_column_try st e u p v tn cn sn
              = (Inr response,
                 st\<lparr>dictionaries := AList.update m (apply_set ?sets doc) (dictionaries st)\<rparr>)"
      using changed by (simp add: try_eq planned commit_Inr[OF doc])
    have "stored_tables (st\<lparr>dictionaries := AList.update m (apply_set ?sets doc)
                                                 (dictionaries st)\<rparr>) m
            = PList (without_column ts j i cs)"
      by (simp add: stored_tables_def stored_field_updated)
    then show ?thesis using ok by (simp add: delete_column_def run)
  qed
  show ?thesis
    using last only removed
      handle_exceptions_Inl_ValidationError[of "delete_column_try st e u p v tn cn sn"]
    by (auto simp: delete_column_def)
qed

lemma sample_schemas_field:
  "dict_get ((''_id'', PObjectId ''a1'') # sample_doc 1) ''schemas'' (PDict [])
     = PDict sample_schemas_data"
  by (simp add: dict_get_def sample_doc_def schemas_to_dict_def sample_schemas_def
      Schema_init_def sample_schemas_data_def sample_tables_def)

lemma sample_tables_field:
  "map_of sample_schemas_data ''tables'' = Some (PList (map PDict sample_tables))"
  by (simp add: sample_schemas_data_def)

lemma sample_relationships_field:
  "dict_get ((''_id'', PObjectId ''a1'') # sample_doc 1) ''relationships'' (PList [])
     = PList (map PDict [Relationship_model_dump sample_relationship])"
  by (simp add: dict_get_def sample_doc_def)

lemma orders_is_first:
  "first_index (\<lambda>t. table_matches t ''orders'' ''public'') sample_tables 0"
  by (simp add: first_index_def sample_tables_def table_matches_def dict_get_def
      Table_model_dump_def orders_table_def Table_init_def)

lemma items_is_second:
  "first_index (\<lambda>t. table_matches t ''items'' ''public'') sample_tables 1"
  by (simp add: first_index_def sample_tables_def table_matches_def dict_get_def
      Table_model_dump_def orders_table_def items_table_def Table_init_def)

lemma orders_columns_field:
  "dict_get (sample_tables ! 0) ''columns'' (PList []) = PList (map PDict orders_columns)"
  by (simp add: sample_tables_def dict_get_def Table_model_dump_def orders_columns_def
      opt_field_def orders_table_def Table_init_def)

lemma items_columns_field:
  "dict_get (sample_tables ! 1) ''columns'' (PList []) = PList (map PDict items_columns)"
  by (simp add: sample_tables_def dict_get_def Table_model_dump_def items_columns_def
      opt_field_def items_table_def Table_init_def)

lemma orders_columns_facts:
  "first_index (has_name ''id'') orders_columns 0"
  "first_index (has_name ''total'') orders_columns 1"
  "derived_flags_ok orders_columns"
  "length orders_columns = 2"
  "key_is_PK (orders_columns ! 0)"
  "\<not> key_is_PK (orders_columns ! 1)"
  "length (filter key_is_PK orders_columns) = 1"
  by (simp_all add: orders_columns_def orders_table_def Table_init_def Column_model_dump_def
      Column_init_def opt_field_def isPK_def isFK_def has_name_def dict_get_def
      first_index_def key_is_PK_def derived_flags_ok_def)

theorem delete_column_rules_witness:
  "fetch_dictionary sample_state ''alice'' ''p1'' 1
     = Inr (''a1'', (''_id'', PObjectId ''a1'') # sample_doc 1)
   \<and> first_index (has_name ''id'') orders_columns 0
   \<and> first_index (has_name ''total'') orders_columns 1
   \<and> derived_flags_ok orders_columns
   \<and> length orders_columns = 2
   \<and> length (filter key_is_PK orders_columns) = 1
   \<and> delete_column sample_state sample_env ''alice'' ''p1'' 1 ''orders'' ''id'' ''public''
       = (Inr (error_response ''Cannot delete the only primary key column'' [] 500),
          sample_state)
   \<and> is_success
        (fst (delete_column sample_state sample_env ''alice'' ''p1'' 1 ''orders'' ''total''
                ''public''))
   \<and> stored_tables
        (snd (delete_column sample_state sample_env ''alice'' ''p1'' 1 ''orders'' ''total''
                ''public'')) ''a1''
       = PList (without_column sample_tables 0 1 orders_columns)"
  using delete_column_rules[OF sample_fetch sample_schemas_field sample_tables_field
      orders_is_first orders_columns_field orders_columns_facts(1) sample_relationships_field
      orders_columns_facts(3), of sample_env]
    delete_column_rules[OF sample_fetch sample_schemas_field sample_tables_field
      orders_is_first orders_columns_field orders_columns_facts(2) sample_relationships_field
      orders_columns_facts(3), of sample_env]
    orders_columns_facts sample_fetch
  by simp

subsection \<open>Relationships after delete_table and delete_column\<close>

lemma delete_table_plan_eval:
  assumes schemas: "dict_get dictionary ''schemas'' (PDict []) = PDict sd"
    and tables: "map_of sd ''tables'' = Some (PList (map PDict ts))"
    and table: "first_index (\<lambda>t. table_matches t tn sn) ts j"
    and rels: "dict_get dictionary ''relationships'' (PList []) = PList (map PDict rels)"
  shows "\<exists>response. is_success (Inr response)
           \<and> delete_table_plan e dictionary tn sn
               = Inr (deletion_sets e sd (map PDict (take j ts @ drop (Suc j) ts))
                        (filter (keeps_table_relationship tn) rels), response)"
proof -
  have sw: "schemas_with_tables dictionary tn sn = Inr sd"
    using schemas tables by (simp add: schemas_with_tables_def)
  have it: "py_iter (dict_get sd ''tables'' (PList [])) = Inr (map PDict ts)"
    using tables by (simp add: dict_get_def)
  have loop: "delete_table_loop (map PDict ts) (map PDict ts) 0 tn sn
                = Inr (Some (PDict (ts ! j), map PDict (take j ts @ drop (Suc j) ts)))"
    using delete_table_loop_found[OF table, of "map PDict ts" 0]
    by (simp add: take_map drop_map)
  show ?thesis
    unfolding delete_table_plan_def
    by (simp add: sw it loop rels relationships_without_table_dicts deletion_sets_def)
qed

lemma delete_table_effect:
  assumes fetched: "fetch_dictionary st u p v = Inr (m, dictionary)"
    and schemas: "dict_get dictionary ''schemas'' (PDict []) = PDict sd"
    and tables: "map_of sd ''tables'' = Some (PList (map PDict ts))"
    and table: "first_index (\<lambda>t. table_matches t tn sn) ts j"
    and rels: "dict_get dictionary ''relationships'' (PList []) = PList (map PDict rels)"
  shows "is_success (fst (delete_table st e u p v tn sn))
         \<and> stored_tables (snd (delete_table st e u p v tn sn)) m
             = PList (map PDict (take j ts @ drop (Suc j) ts))
         \<and> stored_field (snd (delete_table st e u p v tn sn)) m ''relationships''
             = PList (map PDict (filter (keeps_table_relationship tn) rels))"
proof -
  from fetch_dictionary_stored[OF fetched] obtain doc where
    doc: "map_of (dictionaries st) m = Some doc" and
    dictionary: "dictionary = (''_id'', PObjectId m) # doc"
    by blast
  have j: "j < length ts" using table by (simp add: first_index_def)
  let ?sets = "deletion_sets e sd (map PDict (take j ts @ drop (Suc j) ts))
                 (filter (keeps_table_relationship tn) rels)"
  from delete_table_plan_eval[OF schemas tables table rels, of e]
  obtain response where ok: "is_success (Inr response)"
    and planned: "delete_table_plan e dictionary tn sn = Inr (?sets, response)"
    by blast
  have old: "dict_get doc ''schemas'' (PDict []) = PDict sd"
    using schemas dictionary by simp
  have shorter: "map PDict (take j ts @ drop (Suc j) ts) \<noteq> map PDict ts"
  proof
    assume "map PDict (take j ts @ drop (Suc j) ts) = map PDict ts"
    then have "length (take j ts @ drop (Suc j) ts) = length ts" by (metis length_map)
    then show False using j by simp
  qed
  have "PDict (AList.update ''tables'' (PList (map PDict (take j ts @ drop (Suc j) ts))) sd)
          \<noteq> PDict sd"
  proof
    assume "PDict (AList.update ''tables'' (PList (map PDict (take j ts @ drop (Suc j) ts))) sd)
              = PDict sd"
    then have "dict_get (AList.update ''tables''
                           (PList (map PDict (take j ts @ drop (Suc j) ts))) sd) ''tables'' PNone
                 = dict_get sd ''tables'' PNone"
      by simp
    moreover have "dict_get sd ''tables'' PNone = PList (map PDict ts)"
      using tables by (simp add: dict_get_def)
    ultimately show False using shorter by simp
  qed
  then have "dict_get (apply_set ?sets doc) ''schemas'' (PDict [])
               \<noteq> dict_get doc ''schemas'' (PDict [])"
    using old by simp
  then have changed: "apply_set ?sets doc \<noteq> doc" by metis
  have run: "delete_table_try st e u p v tn sn
               = (Inr response,
                  st\<lparr>dictionaries := AList.update m (apply_set ?sets doc) (dictionaries st)\<rparr>)"
    using changed by (simp add: delete_table_try_def fetched planned commit_Inr[OF doc])
  show ?thesis
    using ok by (simp add: delete_table_def run stored_tables_def stored_field_updated)
qed

lemma delete_column_relationships:
  assumes fetched: "fetch_dictionary st u p v = Inr (m, dictionary)"
    and schemas: "dict_get dictionary ''schemas'' (PDict []) = PDict sd"
    and tables: "map_of sd ''tables'' = Some (PList (map PDict ts))"
    and table: "first_index (\<lambda>t. table_matches t tn sn) ts j"
    and columns: "dict_get (ts ! j) ''columns'' (PList []) = PList (map PDict cs)"
    and column: "first_index (has_name cn) cs i"
    and rels: "dict_get dictionary ''relationships'' (PList []) = PList (map PDict rels)"
    and more: "length cs \<noteq> 1"
    and spare: "\<not> (is_pk (cs ! i) \<and> length (filter is_pk cs) = 1)"
  shows "is_success (fst (delete_column st e u p v tn cn sn))
         \<and> stored_field (snd (delete_column st e u p v tn cn sn)) m ''relationships''
             = PList (map PDict (filter (keeps_column_relationship tn cn) rels))"
proof -
  from fetch_dictionary_stored[OF fetched] obtain doc where
    doc: "map_of (dictionaries st) m = Some doc" and
    dictionary: "dictionary = (''_id'', PObjectId m) # doc"
    by blast
  have i: "i < length cs" and j: "j < length ts"
    using column table by (simp_all add: first_index_def)
  let ?sets = "deletion_sets e sd (without_column ts j i cs)
                 (filter (keeps_column_relationship tn cn) rels)"
  have "\<exists>response. is_success (Inr response)
          \<and> delete_column_plan e dictionary tn cn sn = Inr (?sets, response)"
    using more spare
    unfolding delete_column_plan_eval[OF schemas tables table columns column rels, of e]
    by auto
  then obtain response where ok: "is_success (Inr response)" and
    planned: "delete_column_plan e dictionary tn cn sn = Inr (?sets, response)"
    by blast
  have old: "dict_get doc ''schemas'' (PDict []) = PDict sd"
    using schemas dictionary by simp
  have "dict_get (apply_set ?sets doc) ''schemas'' (PDict []) \<noteq> dict_get doc ''schemas'' (PDict [])"
    using without_column_changes[OF tables j columns i] old by simp
  then have changed: "apply_set ?sets doc \<noteq> doc" by metis
  have run: "delete_column_try st e u p v tn cn sn
               = (Inr response,
                  st\<lparr>dictionaries := AList.update m (apply_set ?sets doc) (dictionaries st)\<rparr>)"
    using changed by (simp add: delete_column_try_def fetched planned commit_Inr[OF doc])
  show ?thesis
    using ok by (simp add: delete_column_def run stored_field_updated)
qed

lemma delete_column_refused:
  assumes fetched: "fetch_dictionary st u p v = Inr (m, dictionary)"
    and schemas: "dict_get dictionary ''schemas'' (PDict []) = PDict sd"
    and tables: "map_of sd ''tables'' = Some (PList (map PDict ts))"
    and table: "first_index (\<lambda>t. table_matches t tn sn) ts j"
    and columns: "dict_get (ts ! j) ''columns'' (PList []) = PList (map PDict cs)"
    and column: "first_index (has_name cn) cs i"
    and rels: "dict_get dictionary ''relationships'' (PList []) = PList (map PDict rels)"
    and refused: "length cs = 1 \<or> (is_pk (cs ! i) \<and> length (filter is_pk cs) = 1)"
  shows "\<not> is_success (fst (delete_column st e u p v tn cn sn))
         \<and> snd (delete_column st e u p v tn cn sn) = st"
proof -
  have "\<exists>msg. delete_column_plan e dictionary tn cn sn = Inl (ValidationError msg)"
    using refused
    unfolding delete_column_plan_eval[OF schemas tables table columns column rels, of e]
    by auto
  then obtain msg where "delete_column_plan e dictionary tn cn sn = Inl (ValidationError msg)"
    by blast
  then have "delete_column_try st e u p v tn cn sn = (Inl (ValidationError msg), st)"
    by (simp add: delete_column_try_def fetched commit_def)
  then show ?thesis by (simp add: delete_column_def)
qed

text \<open>
  Claim C9. Take a stored document in the dict shape whose table list holds dicts, the
  first table of the asked name and schema, and its list of relationship dicts. A
  relationship is read by its keys \<open>source_table\<close>, \<open>source_column\<close>, \<open>target_table\<close>
  and \<open>target_column\<close>. \<open>delete_table\<close> succeeds, and the stored relationships are the
  old ones, in their order, without those whose \<open>source_table\<close> or \<open>target_table\<close> is
  the table's name; the schema plays no part. \<open>delete_column\<close> of a column of that
  table, unless it is refused and then changes nothing, succeeds, and the stored
  relationships are the old ones without those whose source pair or target pair is
  that table and column. Every other relationship stays.
\<close>

theorem relationship_pruning:
  assumes fetched: "fetch_dictionary st u p v = Inr (m, dictionary)"
    and schemas: "dict_get dictionary ''schemas'' (PDict []) = PDict sd"
    and tables: "map_of sd ''tables'' = Some (PList (map PDict ts))"
    and table: "first_index (\<lambda>t. table_matches t tn sn) ts j"
    and rels: "dict_get dictionary ''relationships'' (PList []) = PList (map PDict rels)"
  shows "is_success (fst (delete_table st e u p v tn sn))
         \<and> stored_field (snd (delete_table st e u p v tn sn)) m ''relationships''
             = PList (map PDict
                 (filter (\<lambda>rel. dict_get rel ''source_table'' PNone \<noteq> PStr tn
                               \<and> dict_get rel ''target_table'' PNone \<noteq> PStr tn) rels))
         \<and> (\<forall>cs i cn.
               dict_get (ts ! j) ''columns'' (PList []) = PList (map PDict cs)
               \<and> first_index (has_name cn) cs i
               \<longrightarrow> (if length cs = 1 \<or> (is_pk (cs ! i) \<and> length (filter is_pk cs) = 1)
                    then \<not> is_success (fst (delete_column st e u p v tn cn sn))
                         \<and> snd (delete_column st e u p v tn cn sn) = st
                    else is_success (fst (delete_column st e u p v tn cn sn))
                         \<and> stored_field (snd (delete_column st e u p v tn cn sn)) m
                              ''relationships''
                             = PList (map PDict
                                 (filter (\<lambda>rel.
                                    \<not> ((dict_get rel ''source_table'' PNone = PStr tn
                                          \<and> dict_get rel ''source_column'' PNone = PStr cn)
                                         \<or> (dict_get rel ''target_table'' PNone = PStr tn
                                             \<and> dict_get rel ''target_column'' PNone = PStr cn)))
                                  rels))))"
proof -
  have kt: "keeps_table_relationship tn
              = (\<lambda>rel. dict_get rel ''source_table'' PNone \<noteq> PStr tn
                       \<and> dict_get rel ''target_table'' PNone \<noteq> PStr tn)"
    by (rule ext) (simp add: keeps_table_relationship_def)
  have kc: "keeps_column_relationship tn cn
              = (\<lambda>rel. \<not> ((dict_get rel ''source_table'' PNone = PStr tn
                               \<and> dict_get rel ''source_column'' PNone = PStr cn)
                              \<or> (dict_get rel ''target_table'' PNone = PStr tn
                                  \<and> dict_get rel ''target_column'' PNone = PStr cn)))" for cn
    by (rule ext) (simp add: keeps_column_relationship_def)
  have t: "is_success (fst (delete_table st e u p v tn sn))
         \<and> stored_field (snd (delete_table st e u p v tn sn)) m ''relationships''
             = PList (map PDict (filter (keeps_table_relationship tn) rels))"
    using delete_table_effect[OF fetched schemas tables table rels, of e] by simp
  have c: "if length cs = 1 \<or> (is_pk (cs ! i) \<and> length (filter is_pk cs) = 1)
           then \<not> is_success (fst (delete_column st e u p v tn cn sn))
                \<and> snd (delete_column st e u p v tn cn sn) = st
           else is_success (fst (delete_column st e u p v tn cn sn))
                \<and> stored_field (snd (delete_column st e u p v tn cn sn)) m ''relationships''
                    = PList (map PDict (filter (keeps_column_relationship tn cn) rels))"
    if columns: "dict_get (ts ! j) ''columns'' (PList []) = PList (map PDict cs)"
      and column: "first_index (has_name cn) cs i" for cs i cn
  proof (cases "length cs = 1 \<or> (is_pk (cs ! i) \<and> length (filter is_pk cs) = 1)")
    case True
    then show ?thesis
      using delete_column_refused[OF fetched schemas tables table columns column rels True, of e]
      by simp
  next
    case False
    then have more: "length cs \<noteq> 1"
      and spare: "\<not> (is_pk (cs ! i) \<and> length (filter is_pk cs) = 1)" by auto
    show ?thesis
      using False
        delete_column_relationships[OF fetched schemas tables table columns column rels
          more spare, of e]
      by simp
  qed
  show ?thesis
    using t c unfolding kt kc by blast
qed

lemma related_fetch:
  "fetch_dictionary related_state ''alice'' ''p1'' 1
     = Inr (''a1'', (''_id'', PObjectId ''a1'') # related_doc)"
  by (simp add: fetch_dictionary_def get_version_mongo_id_def select_version_def single_def
      find_one_def related_state_def sample_state_def sample_row_def verify_project_access_def
      related_doc_def sample_doc_def)

lemma related_fields:
  "dict_get ((''_id'', PObjectId ''a1'') # related_doc) ''schemas'' (PDict [])
     = PDict sample_schemas_data"
  "dict_get ((''_id'', PObjectId ''a1'') # related_doc) ''relationships'' (PList [])
     = PList (map PDict sample_links)"
  using sample_schemas_field by (simp_all add: related_doc_def)

lemma items_columns_facts:
  "first_index (has_name ''order_id'') items_columns 1"
  "\<not> (length items_columns = 1
       \<or> (is_pk (items_columns ! 1) \<and> length (filter is_pk items_columns) = 1))"
  by (simp_all add: items_columns_def items_table_def Table_init_def Column_model_dump_def
      Column_init_def opt_field_def isPK_def isFK_def has_name_def dict_get_def
      first_index_def is_pk_def)

theorem relationship_pruning_witness:
  "fetch_dictionary related_state ''alice'' ''p1'' 1
     = Inr (''a1'', (''_id'', PObjectId ''a1'') # related_doc)
   \<and> stored_field related_state ''a1'' ''relationships''
       = PList [PDict (keyed_relationship ''r1'' ''items'' ''order_id'' ''orders'' ''id''),
                PDict (keyed_relationship ''r2'' ''items'' ''id'' ''orders'' ''id''),
                PDict (keyed_relationship ''r3'' ''orders'' ''total'' ''orders'' ''id'')]
   \<and> is_success (fst (delete_table related_state sample_env ''alice'' ''p1'' 1 ''items'' ''public''))
   \<and> stored_field
        (snd (delete_table related_state sample_env ''alice'' ''p1'' 1 ''items'' ''public''))
        ''a1'' ''relationships''
       = PList [PDict (keyed_relationship ''r3'' ''orders'' ''total'' ''orders'' ''id'')]
   \<and> is_success
        (fst (delete_column related_state sample_env ''alice'' ''p1'' 1 ''items'' ''order_id''
                ''public''))
   \<and> stored_field
        (snd (delete_column related_state sample_env ''alice'' ''p1'' 1 ''items'' ''order_id''
                ''public''))
        ''a1'' ''relationships''
       = PList [PDict (keyed_relationship ''r2'' ''items'' ''id'' ''orders'' ''id''),
                PDict (keyed_relationship ''r3'' ''orders'' ''total'' ''orders'' ''id'')]"
proof -
  have stored: "stored_field related_state ''a1'' ''relationships'' = PList (map PDict sample_links)"
    by (simp add: stored_field_def related_state_def related_doc_def)
  have keys:
    "dict_get (keyed_relationship i a b c d) ''source_table'' PNone = PStr a"
    "dict_get (keyed_relationship i a b c d) ''source_column'' PNone = PStr b"
    "dict_get (keyed_relationship i a b c d) ''target_table'' PNone = PStr c"
    "dict_get (keyed_relationship i a b c d) ''target_column'' PNone = PStr d" for i a b c d
    by (simp_all add: keyed_relationship_def dict_get_def)
  note r = relationship_pruning[OF related_fetch related_fields(1) sample_tables_field
      items_is_second related_fields(2), of sample_env]
  have t: "is_success (fst (delete_table related_state sample_env ''alice'' ''p1'' 1 ''items''
                              ''public''))
     \<and> stored_field
          (snd (delete_table related_state sample_env ''alice'' ''p1'' 1 ''items'' ''public''))
          ''a1'' ''relationships''
         = PList [PDict (keyed_relationship ''r3'' ''orders'' ''total'' ''orders'' ''id'')]"
    using r by (simp add: sample_links_def keys)
  have "if length items_columns = 1
           \<or> (is_pk (items_columns ! 1) \<and> length (filter is_pk items_columns) = 1)
        then \<not> is_success
                 (fst (delete_column related_state sample_env ''alice'' ''p1'' 1 ''items''
                         ''order_id'' ''public''))
             \<and> snd (delete_column related_state sample_env ''alice'' ''p1'' 1 ''items''
                       ''order_id'' ''public'') = related_state
        else is_success
               (fst (delete_column related_state sample_env ''alice'' ''p1'' 1 ''items''
                       ''order_id'' ''public''))
             \<and> stored_field
                  (snd (delete_column related_state sample_env ''alice'' ''p1'' 1 ''items''
                          ''order_id'' ''public''))
                  ''a1'' ''relationships''
                 = PList (map PDict
                     (filter (\<lambda>rel.
                        \<not> ((dict_get rel ''source_table'' PNone = PStr ''items''
                              \<and> dict_get rel ''source_column'' PNone = PStr ''order_id'')
                             \<or> (dict_get rel ''target_table'' PNone = PStr ''items''
                                 \<and> dict_get rel ''target_column'' PNone = PStr ''order_id'')))
                      sample_links))"
    using r items_columns_field items_columns_facts(1) by blast
  then have c: "is_success
               (fst (delete_column related_state sample_env ''alice'' ''p1'' 1 ''items''
                       ''order_id'' ''public''))
     \<and> stored_field
          (snd (delete_column related_state sample_env ''alice'' ''p1'' 1 ''items''
                  ''order_id'' ''public''))
          ''a1'' ''relationships''
         = PList [PDict (keyed_relationship ''r2'' ''items'' ''id'' ''orders'' ''id''),
                  PDict (keyed_relationship ''r3'' ''orders'' ''total'' ''orders'' ''id'')]"
    using items_columns_facts(2) by (simp add: sample_links_def keys)
  show ?thesis
    using related_fetch stored t c by (simp add: sample_links_def)
qed

end
